theory Spec2Isabelle
  imports Main "HOL-Library.Word" "HOL-Library.AList"
begin

section \<open>The state-diff tracer of eth/tracers/native\<close>

text \<open>
  A shallow embedding of the Go tracer \<^verbatim>\<open>StateDiffTracer\<close>. The tracer is a
  mutable object driven by the callbacks of the EVM; here every method takes the
  tracer and returns the updated tracer. A Go panic (nil dereference, index out of
  range) is the \<open>Inl\<close> branch of the result.
\<close>

subsection \<open>Host types\<close>

type_synonym byte = "8 word"
type_synonym uint64 = "64 word"

text \<open>\<^verbatim>\<open>common.Address\<close> is \<^verbatim>\<open>[20]byte\<close> and \<^verbatim>\<open>common.Hash\<close> is \<^verbatim>\<open>[32]byte\<close>; a
  fixed-width byte array is modelled by the big-endian number it holds, so the
  conversion \<^verbatim>\<open>common.Hash(x.Bytes32())\<close> of a 256-bit stack word is the identity.\<close>

type_synonym address = "160 word"
type_synonym hash = "256 word"

text \<open>A Go slice \<^verbatim>\<open>[]byte\<close> can be \<^verbatim>\<open>nil\<close>, which differs from the empty slice
  \<^verbatim>\<open>[]byte{}\<close> under \<^verbatim>\<open>!= nil\<close>: \<open>None\<close> is nil, \<open>Some []\<close> is the empty slice.\<close>

type_synonym bytes = "byte list option"

datatype panic = NilPointerDereference | IndexOutOfRange

text \<open>The opcodes the tracer compares against (an enumeration of \<^verbatim>\<open>vm.OpCode\<close>;
  every other opcode is \<open>OtherOp\<close> with its byte).\<close>

datatype OpCode = CALL | CREATE | CREATE2 | SELFDESTRUCT | SSTORE | OtherOp byte

text \<open>The committed-state reader \<^verbatim>\<open>vm.StateDB\<close>, as the four getters the tracer calls.
  \<^verbatim>\<open>GetBalance\<close> returns a \<^verbatim>\<open>*big.Int\<close>, \<^verbatim>\<open>GetCode\<close> a slice that is nil for an
  account without code.\<close>

record StateDB =
  GetBalance :: "address \<Rightarrow> int"
  GetNonce :: "address \<Rightarrow> uint64"
  GetCode :: "address \<Rightarrow> bytes"
  GetState :: "address \<Rightarrow> hash \<Rightarrow> hash"

record EVM =
  StateDB :: StateDB

text \<open>The frames of the call tracer (\<^verbatim>\<open>callFrame\<close> of call.go): \<^verbatim>\<open>To\<close> is a pointer
  to an address and \<^verbatim>\<open>Value\<close> a pointer to a big integer, both of which may be nil.\<close>

datatype callFrame = CallFrame
  (Type: OpCode)
  (From: address)
  (To: "address option")
  (Input: bytes)
  (Value: "int option")
  (GasUsed: uint64)
  (Calls: "callFrame list")

record callTracer =
  callstack :: "callFrame list"

subsection \<open>The diff store\<close>

record 'a diff =
  before :: 'a
  after :: 'a

text \<open>\<^verbatim>\<open>balanceDelta\<close> is a \<^verbatim>\<open>*big.Int\<close>; the only constructor of an entry is
  \<^verbatim>\<open>tryInitAccDiff\<close>, which allocates it, so it is an unbounded integer here.
  \<^verbatim>\<open>nonceDelta\<close> is a Go \<^verbatim>\<open>int\<close> (64 bits on the platforms the node runs on); \<open>++\<close>
  wraps and \<^verbatim>\<open>uint64(nonceDelta)\<close> keeps the bit pattern. The \<^verbatim>\<open>storage\<close> map is an
  association list with \<open>map_of\<close> as lookup and \<open>AList.update\<close> as assignment,
  so that the report can range over it.\<close>

record accountDiff =
  balanceDelta :: int
  nonceDelta :: uint64
  storage :: "(hash \<times> hash diff) list"
  code :: "bytes diff"

record StateDiffTracer =
  accounts :: "address \<rightharpoonup> accountDiff"
  env :: "EVM option"
  tracer :: callTracer

text \<open>The earlier revision of the tracer has one more field.\<close>

record StateDiffTracer_gas = StateDiffTracer +
  gasLimit :: uint64

text \<open>\<^verbatim>\<open>newStateTracer\<close>: an empty accounts map, \<^verbatim>\<open>env\<close> nil, around the call tracer.\<close>

definition newStateTracer :: "callTracer \<Rightarrow> StateDiffTracer" where
  "newStateTracer t = \<lparr>accounts = Map.empty, env = None, tracer = t\<rparr>"

text \<open>The entry \<^verbatim>\<open>tryInitAccDiff\<close> stores: \<^verbatim>\<open>big.NewInt(0)\<close>, the zero value of
  \<^verbatim>\<open>nonceDelta\<close>, an empty map and two nil slices.\<close>

definition emptyAccDiff :: accountDiff where
  "emptyAccDiff = \<lparr>balanceDelta = 0, nonceDelta = 0, storage = [], code = \<lparr>before = None, after = None\<rparr>\<rparr>"

definition tryInitAccDiff ::
  "('z) StateDiffTracer_scheme \<Rightarrow> address \<Rightarrow> 'z StateDiffTracer_scheme \<times> bool" where
  "tryInitAccDiff l addr =
     (case accounts l addr of
        None \<Rightarrow> (l\<lparr>accounts := (accounts l)(addr \<mapsto> emptyAccDiff)\<rparr>, True)
      | Some _ \<Rightarrow> (l, False))"

text \<open>\<^verbatim>\<open>l.accounts[addr]\<close> after \<^verbatim>\<open>tryInitAccDiff\<close>: the entry is there; a Go map read of
  a missing key gives the zero value.\<close>

definition zeroAccDiff :: accountDiff where
  "zeroAccDiff = \<lparr>balanceDelta = 0, nonceDelta = 0, storage = [], code = \<lparr>before = None, after = None\<rparr>\<rparr>"

definition getAcc :: "('z) StateDiffTracer_scheme \<Rightarrow> address \<Rightarrow> accountDiff" where
  "getAcc l addr = (case accounts l addr of None \<Rightarrow> zeroAccDiff | Some d \<Rightarrow> d)"

definition recordNonceIncrese ::
  "('z) StateDiffTracer_scheme \<Rightarrow> address \<Rightarrow> 'z StateDiffTracer_scheme" where
  "recordNonceIncrese l addr =
     (let (l1, _) = tryInitAccDiff l addr;
          d = getAcc l1 addr;
          d = d\<lparr>nonceDelta := nonceDelta d + 1\<rparr>
      in l1\<lparr>accounts := (accounts l1)(addr \<mapsto> d)\<rparr>)"

definition recordCode ::
  "('z) StateDiffTracer_scheme \<Rightarrow> address \<Rightarrow> bytes \<Rightarrow> panic + 'z StateDiffTracer_scheme" where
  "recordCode l addr c =
     (let (l1, isInit) = tryInitAccDiff l addr;
          d = getAcc l1 addr
      in if isInit then
           (case env l1 of
              None \<Rightarrow> Inl NilPointerDereference
            | Some e \<Rightarrow>
                (let beforeCode = GetCode (StateDB e) addr;
                     beforeCode = (if beforeCode = None then Some [] else beforeCode);
                     d = d\<lparr>code := (code d)\<lparr>before := beforeCode\<rparr>\<rparr>;
                     d = d\<lparr>code := (code d)\<lparr>after := c\<rparr>\<rparr>
                 in Inr (l1\<lparr>accounts := (accounts l1)(addr \<mapsto> d)\<rparr>)))
         else
           (let d = d\<lparr>code := (code d)\<lparr>after := c\<rparr>\<rparr>
            in Inr (l1\<lparr>accounts := (accounts l1)(addr \<mapsto> d)\<rparr>)))"

text \<open>The zero value of \<^verbatim>\<open>diff[common.Hash]\<close>, read from the storage map at a key it
  does not hold.\<close>

definition zeroHashDiff :: "hash diff" where
  "zeroHashDiff = \<lparr>before = 0, after = 0\<rparr>"

definition getSlot :: "(hash \<times> hash diff) list \<Rightarrow> hash \<Rightarrow> hash diff" where
  "getSlot st key = (case map_of st key of None \<Rightarrow> zeroHashDiff | Some v \<Rightarrow> v)"

text \<open>\<^verbatim>\<open>recordStorage\<close>. The storage map is a reference: the assignment
  \<^verbatim>\<open>l.accounts[addr].storage[key] = value\<close> changes the map of the stored entry.\<close>

definition recordStorage ::
  "('z) StateDiffTracer_scheme \<Rightarrow> address \<Rightarrow> hash \<Rightarrow> hash \<Rightarrow> panic + 'z StateDiffTracer_scheme" where
  "recordStorage l addr key aft =
     (let (l1, isInit) = tryInitAccDiff l addr;
          d = getAcc l1 addr;
          v = getSlot (storage d) key;
          v = v\<lparr>after := aft\<rparr>
      in if isInit then
           (case env l1 of
              None \<Rightarrow> Inl NilPointerDereference
            | Some e \<Rightarrow>
                (let v = v\<lparr>before := GetState (StateDB e) addr key\<rparr>
                 in Inr (l1\<lparr>accounts := (accounts l1)(addr \<mapsto> d\<lparr>storage := AList.update key v (storage d)\<rparr>)\<rparr>)))
         else Inr (l1\<lparr>accounts := (accounts l1)(addr \<mapsto> d\<lparr>storage := AList.update key v (storage d)\<rparr>)\<rparr>))"

definition recordBalanceChange ::
  "('z) StateDiffTracer_scheme \<Rightarrow> address \<Rightarrow> int \<Rightarrow> 'z StateDiffTracer_scheme" where
  "recordBalanceChange l addr delta =
     (let (l1, _) = tryInitAccDiff l addr;
          d = getAcc l1 addr;
          d = d\<lparr>balanceDelta := balanceDelta d + delta\<rparr>
      in l1\<lparr>accounts := (accounts l1)(addr \<mapsto> d)\<rparr>)"

subsection \<open>The call tracer and the execution scope\<close>

text \<open>\<^verbatim>\<open>vm.ScopeContext\<close>: the executing contract and the operand stack, whose
  \<^verbatim>\<open>Data()\<close> is the slice of 256-bit words with the top of the stack last.\<close>

record Contract =
  Address :: address

record Stack =
  Data :: "hash list"

record ScopeContext =
  Contract :: Contract
  Stack :: Stack

text \<open>The tracer wraps a \<^verbatim>\<open>callTracer\<close> and forwards every callback to it before doing
  its own work. The call tracer's methods (call.go) are not part of the tracer's file:
  they are parameters of the model, one function on the call tracer's state for each
  method, so that every theorem holds for whatever the call tracer does. A Go
  \<^verbatim>\<open>error\<close> value is its message, or \<open>None\<close> for nil.\<close>

type_synonym err = "string option"

record callTracerMethods =
  tracer_CaptureTxStart :: "uint64 \<Rightarrow> callTracer \<Rightarrow> callTracer"
  tracer_CaptureTxEnd :: "uint64 \<Rightarrow> callTracer \<Rightarrow> callTracer"
  tracer_CaptureStart ::
    "EVM option \<Rightarrow> address \<Rightarrow> address \<Rightarrow> bool \<Rightarrow> bytes \<Rightarrow> uint64 \<Rightarrow> int option \<Rightarrow> callTracer \<Rightarrow> callTracer"
  tracer_CaptureEnd :: "bytes \<Rightarrow> uint64 \<Rightarrow> err \<Rightarrow> callTracer \<Rightarrow> callTracer"
  tracer_CaptureEnter ::
    "OpCode \<Rightarrow> address \<Rightarrow> address \<Rightarrow> bytes \<Rightarrow> uint64 \<Rightarrow> int option \<Rightarrow> callTracer \<Rightarrow> callTracer"
  tracer_CaptureExit :: "bytes \<Rightarrow> uint64 \<Rightarrow> err \<Rightarrow> callTracer \<Rightarrow> callTracer"
  tracer_CaptureFault ::
    "uint64 \<Rightarrow> OpCode \<Rightarrow> uint64 \<Rightarrow> uint64 \<Rightarrow> ScopeContext \<Rightarrow> int \<Rightarrow> err \<Rightarrow> callTracer \<Rightarrow> callTracer"
  tracer_Stop :: "err \<Rightarrow> callTracer \<Rightarrow> callTracer"

text \<open>Sequencing of steps that may panic.\<close>

definition andThen :: "panic + 'a \<Rightarrow> ('a \<Rightarrow> panic + 'b) \<Rightarrow> panic + 'b" where
  "andThen m f = (case m of Inl p \<Rightarrow> Inl p | Inr x \<Rightarrow> f x)"

text \<open>\<^verbatim>\<open>big.NewInt(x)\<close> of an \<^verbatim>\<open>int64\<close>, and the conversion \<^verbatim>\<open>int64(u)\<close> of a
  \<^verbatim>\<open>uint64\<close>, which keeps the bits: together the signed reading of the word.\<close>

definition big_NewInt :: "uint64 \<Rightarrow> int" where
  "big_NewInt x = sint x"

subsection \<open>The callbacks (current revision)\<close>

definition CaptureTxStart :: "callTracerMethods \<Rightarrow> StateDiffTracer \<Rightarrow> uint64 \<Rightarrow> StateDiffTracer" where
  "CaptureTxStart M l gasLim = l\<lparr>tracer := tracer_CaptureTxStart M gasLim (tracer l)\<rparr>"

text \<open>\<^verbatim>\<open>big.NewInt(-int64(used))\<close>: the negation is the one of \<^verbatim>\<open>int64\<close>.\<close>

definition CaptureTxEnd ::
  "callTracerMethods \<Rightarrow> StateDiffTracer \<Rightarrow> uint64 \<Rightarrow> panic + StateDiffTracer" where
  "CaptureTxEnd M l restGas =
     (let l = l\<lparr>tracer := tracer_CaptureTxEnd M restGas (tracer l)\<rparr>
      in case callstack (tracer l) of
           [] \<Rightarrow> Inl IndexOutOfRange
         | callFrame # _ \<Rightarrow>
             (let caller = callFrame.From callFrame;
                  used = GasUsed callFrame;
                  l = recordBalanceChange l caller (big_NewInt (- used))
              in if Type callFrame \<noteq> CREATE then Inr (recordNonceIncrese l caller) else Inr l))"

definition CaptureStart ::
  "callTracerMethods \<Rightarrow> StateDiffTracer \<Rightarrow> EVM option \<Rightarrow> address \<Rightarrow> address \<Rightarrow> bool \<Rightarrow> bytes
     \<Rightarrow> uint64 \<Rightarrow> int option \<Rightarrow> StateDiffTracer" where
  "CaptureStart M l e from to create input gas val =
     (let l = l\<lparr>env := e\<rparr>;
          l = l\<lparr>tracer := tracer_CaptureStart M e from to create input gas val (tracer l)\<rparr>
      in if create then recordNonceIncrese l from else l)"

text \<open>The ether transfer shared by \<^verbatim>\<open>CaptureEnd\<close> and \<^verbatim>\<open>CaptureExit\<close>:
  \<^verbatim>\<open>if value != nil { ... *callframe.To ... }\<close>.\<close>

definition etherTransfer :: "StateDiffTracer \<Rightarrow> callFrame \<Rightarrow> panic + StateDiffTracer" where
  "etherTransfer l callframe =
     (case Value callframe of
        None \<Rightarrow> Inr l
      | Some v \<Rightarrow>
          (case To callframe of
             None \<Rightarrow> Inl NilPointerDereference
           | Some to \<Rightarrow>
               Inr (recordBalanceChange (recordBalanceChange l (callFrame.From callframe) (- v)) to v)))"

definition CaptureEnd ::
  "callTracerMethods \<Rightarrow> StateDiffTracer \<Rightarrow> bytes \<Rightarrow> uint64 \<Rightarrow> err \<Rightarrow> panic + StateDiffTracer" where
  "CaptureEnd M l output gasUsed er =
     (let l = l\<lparr>tracer := tracer_CaptureEnd M output gasUsed er (tracer l)\<rparr>
      in case callstack (tracer l) of
           [] \<Rightarrow> Inl IndexOutOfRange
         | callframe # _ \<Rightarrow>
             (let opType = Type callframe
              in if opType = CREATE \<or> opType = CREATE2 \<or> opType = CALL then
                   andThen
                     (if opType = CREATE \<or> opType = CREATE2 then
                        (case To callframe of
                           None \<Rightarrow> Inl NilPointerDereference
                         | Some contract \<Rightarrow>
                             (case env l of
                                None \<Rightarrow> Inl NilPointerDereference
                              | Some e \<Rightarrow> recordCode l contract (GetCode (StateDB e) contract)))
                      else Inr l)
                     (\<lambda>l. etherTransfer l callframe)
                 else Inr l))"

definition CaptureEnter ::
  "callTracerMethods \<Rightarrow> StateDiffTracer \<Rightarrow> OpCode \<Rightarrow> address \<Rightarrow> address \<Rightarrow> bytes \<Rightarrow> uint64
     \<Rightarrow> int option \<Rightarrow> StateDiffTracer" where
  "CaptureEnter M l typ from to input gas val =
     (let l = l\<lparr>tracer := tracer_CaptureEnter M typ from to input gas val (tracer l)\<rparr>
      in if typ = CREATE \<or> typ = CREATE2 then recordNonceIncrese l from else l)"

text \<open>\<^verbatim>\<open>CaptureExit\<close> reads the last frame of the \<^verbatim>\<open>Calls\<close> of the last frame of the
  call stack; an index \<^verbatim>\<open>len(x)-1\<close> into an empty slice panics.\<close>

definition CaptureExit ::
  "callTracerMethods \<Rightarrow> StateDiffTracer \<Rightarrow> bytes \<Rightarrow> uint64 \<Rightarrow> err \<Rightarrow> panic + StateDiffTracer" where
  "CaptureExit M l output gasUsed er =
     (let l = l\<lparr>tracer := tracer_CaptureExit M output gasUsed er (tracer l)\<rparr>
      in if callstack (tracer l) = [] then Inl IndexOutOfRange
         else
           (let lastCallStack = Calls (last (callstack (tracer l)))
            in if lastCallStack = [] then Inl IndexOutOfRange
               else
                 (let callframe = last lastCallStack;
                      opType = Type callframe
                  in if opType = CREATE \<or> opType = CREATE2 \<or> opType = CALL then
                       andThen
                         (if opType = CREATE \<or> opType = CREATE2 then
                            (case To callframe of
                               None \<Rightarrow> Inl NilPointerDereference
                             | Some contract \<Rightarrow> recordCode l contract (Input callframe))
                          else Inr l)
                         (\<lambda>l. etherTransfer l callframe)
                     else if opType = SELFDESTRUCT then
                       (case To callframe of
                          None \<Rightarrow> Inl NilPointerDereference
                        | Some contract \<Rightarrow>
                            andThen (recordCode l contract (Some []))
                              (\<lambda>l. case env l of
                                     None \<Rightarrow> Inl NilPointerDereference
                                   | Some e \<Rightarrow>
                                       Inr (recordBalanceChange l contract
                                              (- GetBalance (StateDB e) contract))))
                     else Inr l)))"

text \<open>\<^verbatim>\<open>CaptureState\<close>: on \<^verbatim>\<open>SSTORE\<close> with at least two operands, the top of the
  stack is the slot and the one below it the value.\<close>

definition CaptureState ::
  "StateDiffTracer \<Rightarrow> uint64 \<Rightarrow> OpCode \<Rightarrow> uint64 \<Rightarrow> uint64 \<Rightarrow> ScopeContext \<Rightarrow> bytes \<Rightarrow> int \<Rightarrow> err
     \<Rightarrow> panic + StateDiffTracer" where
  "CaptureState l pc op gas cost scope rData depth er =
     (if op = SSTORE then
        (let contract = Contract scope;
             stack = Stack scope;
             stackLen = length (Data stack)
         in if stackLen \<ge> 2 then
              (let val = Data stack ! (stackLen - 2);
                   slot = Data stack ! (stackLen - 1)
               in recordStorage l (Address contract) slot val)
            else Inr l)
      else Inr l)"

text \<open>\<^verbatim>\<open>CaptureFault\<close> and \<^verbatim>\<open>Stop\<close> only forward to the call tracer.\<close>

definition CaptureFault ::
  "callTracerMethods \<Rightarrow> ('z) StateDiffTracer_scheme \<Rightarrow> uint64 \<Rightarrow> OpCode \<Rightarrow> uint64 \<Rightarrow> uint64
     \<Rightarrow> ScopeContext \<Rightarrow> int \<Rightarrow> err \<Rightarrow> 'z StateDiffTracer_scheme" where
  "CaptureFault M l pc op gas cost scope depth er =
     l\<lparr>tracer := tracer_CaptureFault M pc op gas cost scope depth er (tracer l)\<rparr>"

definition Stop :: "callTracerMethods \<Rightarrow> StateDiffTracer \<Rightarrow> err \<Rightarrow> StateDiffTracer" where
  "Stop M l er = l\<lparr>tracer := tracer_Stop M er (tracer l)\<rparr>"

subsection \<open>The callbacks of the earlier revision\<close>

text \<open>The earlier revision of the tracer's file differs in these callbacks; the diff
  store (\<^verbatim>\<open>tryInitAccDiff\<close> and the four \<^verbatim>\<open>record...\<close> methods) and \<^verbatim>\<open>CaptureStart\<close>,
  \<^verbatim>\<open>CaptureEnter\<close> and \<^verbatim>\<open>CaptureState\<close> are the same text. In \<^verbatim>\<open>CaptureEnd\<close> and
  \<^verbatim>\<open>CaptureExit\<close> the amount is \<^verbatim>\<open>big.NewInt(0).Neg(big.NewInt(int64(gasUsed)))\<close>: the
  negation is the one of the big integer.\<close>

definition CaptureTxStart_rev0 ::
  "callTracerMethods \<Rightarrow> StateDiffTracer_gas \<Rightarrow> uint64 \<Rightarrow> StateDiffTracer_gas" where
  "CaptureTxStart_rev0 M l gasLim =
     (let l = l\<lparr>gasLimit := gasLim\<rparr>
      in l\<lparr>tracer := tracer_CaptureTxStart M gasLim (tracer l)\<rparr>)"

definition CaptureTxEnd_rev0 ::
  "callTracerMethods \<Rightarrow> StateDiffTracer_gas \<Rightarrow> uint64 \<Rightarrow> panic + StateDiffTracer_gas" where
  "CaptureTxEnd_rev0 M l restGas =
     (let l = l\<lparr>tracer := tracer_CaptureTxEnd M restGas (tracer l)\<rparr>
      in case callstack (tracer l) of
           [] \<Rightarrow> Inl IndexOutOfRange
         | callFrame # _ \<Rightarrow>
             (let caller = callFrame.From callFrame;
                  used = GasUsed callFrame
              in Inr (recordBalanceChange l caller (big_NewInt (- used)))))"

definition CaptureEnd_rev0 ::
  "callTracerMethods \<Rightarrow> StateDiffTracer_gas \<Rightarrow> bytes \<Rightarrow> uint64 \<Rightarrow> err \<Rightarrow> panic + StateDiffTracer_gas" where
  "CaptureEnd_rev0 M l output gasUsed er =
     (let l = l\<lparr>tracer := tracer_CaptureEnd M output gasUsed er (tracer l)\<rparr>
      in case callstack (tracer l) of
           [] \<Rightarrow> Inl IndexOutOfRange
         | callframe # _ \<Rightarrow>
             (let l = recordBalanceChange l (callFrame.From callframe) (- big_NewInt gasUsed)
              in if Type callframe = CREATE \<or> Type callframe = CREATE2 then
                   (case To callframe of
                      None \<Rightarrow> Inl NilPointerDereference
                    | Some contract \<Rightarrow>
                        (case env l of
                           None \<Rightarrow> Inl NilPointerDereference
                         | Some e \<Rightarrow> recordCode l contract (GetCode (StateDB e) contract)))
                 else Inr l))"

definition CaptureExit_rev0 ::
  "callTracerMethods \<Rightarrow> StateDiffTracer_gas \<Rightarrow> bytes \<Rightarrow> uint64 \<Rightarrow> err \<Rightarrow> panic + StateDiffTracer_gas" where
  "CaptureExit_rev0 M l output gasUsed er =
     (let l = l\<lparr>tracer := tracer_CaptureExit M output gasUsed er (tracer l)\<rparr>
      in if callstack (tracer l) = [] then Inl IndexOutOfRange
         else
           (let lastCallStack = Calls (last (callstack (tracer l)))
            in if lastCallStack = [] then Inl IndexOutOfRange
               else
                 (let callframe = last lastCallStack;
                      l = recordBalanceChange l (callFrame.From callframe) (- big_NewInt gasUsed)
                  in if Type callframe = CREATE \<or> Type callframe = CREATE2 then
                       (case To callframe of
                          None \<Rightarrow> Inl NilPointerDereference
                        | Some contract \<Rightarrow> recordCode l contract (Input callframe))
                     else if Type callframe = SELFDESTRUCT then
                       (case To callframe of
                          None \<Rightarrow> Inl NilPointerDereference
                        | Some contract \<Rightarrow>
                            andThen (recordCode l contract (Some []))
                              (\<lambda>l. case env l of
                                     None \<Rightarrow> Inl NilPointerDereference
                                   | Some e \<Rightarrow>
                                       Inr (recordBalanceChange l contract
                                              (- GetBalance (StateDB e) contract))))
                     else Inr l)))"

text \<open>\<^verbatim>\<open>WrappedTransferFunc\<close> of the earlier revision: \<^verbatim>\<open>core.Transfer\<close> moves the amount in
  the state database, which is not part of the tracer, and the deferred function records
  the two balance changes. Its \<^verbatim>\<open>Stop\<close> does nothing and its \<^verbatim>\<open>CaptureFault\<close> is the one
  above.\<close>

definition WrappedTransferFunc_rev0 ::
  "StateDiffTracer_gas \<Rightarrow> address \<Rightarrow> address \<Rightarrow> int \<Rightarrow> StateDiffTracer_gas" where
  "WrappedTransferFunc_rev0 l sender recipient amount =
     recordBalanceChange (recordBalanceChange l sender (- amount)) recipient amount"

definition Stop_rev0 :: "StateDiffTracer_gas \<Rightarrow> err \<Rightarrow> StateDiffTracer_gas" where
  "Stop_rev0 l er = l"

subsection \<open>Rendering\<close>

text \<open>The formatting functions of the Go library the report calls. \<^verbatim>\<open>hextable\<close> of
  \<^verbatim>\<open>encoding/hex\<close> is \<^verbatim>\<open>"0123456789abcdef"\<close>.\<close>

definition hexdigit :: "nat \<Rightarrow> char" where
  "hexdigit n = ''0123456789abcdef'' ! n"

text \<open>\<^verbatim>\<open>hex.EncodeToString\<close>: two digits for every byte, high nibble first.\<close>

definition EncodeToString :: "byte list \<Rightarrow> string" where
  "EncodeToString bs = concat (map (\<lambda>b. [hexdigit (unat b div 16), hexdigit (unat b mod 16)]) bs)"

text \<open>The digits \<^verbatim>\<open>%x\<close> prints for an unsigned integer: no leading zeros, \<^verbatim>\<open>0\<close> for zero.\<close>

fun hex_nat :: "nat \<Rightarrow> string" where
  "hex_nat n = (if n < 16 then [hexdigit n] else hex_nat (n div 16) @ [hexdigit (n mod 16)])"

declare hex_nat.simps [simp del]

text \<open>\<^verbatim>\<open>fmt.Sprintf("0x%x", u)\<close> for a \<^verbatim>\<open>uint64\<close>.\<close>

definition Sprintf_0x_uint64 :: "uint64 \<Rightarrow> string" where
  "Sprintf_0x_uint64 u = ''0x'' @ hex_nat (unat u)"

text \<open>\<^verbatim>\<open>fmt.Sprintf("0x%x", s)\<close> for a \<^verbatim>\<open>string\<close>: the verb \<^verbatim>\<open>%x\<close> applied to a string
  prints two hexadecimal digits for every byte of the string.\<close>

definition Sprintf_0x_string :: "string \<Rightarrow> string" where
  "Sprintf_0x_string s = ''0x'' @ EncodeToString (map (\<lambda>c. of_nat (of_char c)) s)"

text \<open>\<^verbatim>\<open>(*big.Int).Text(16)\<close>: the digits in base 16, after a minus sign for a negative
  number.\<close>

definition Text16 :: "int \<Rightarrow> string" where
  "Text16 i = (if i < 0 then ''-'' @ hex_nat (nat (- i)) else hex_nat (nat i))"

text \<open>Modelled from the spec: \<^verbatim>\<open>common.Hash.Hex\<close> (package common is not among the
  sources), the canonical fixed-width hexadecimal form of a storage key or value:
  \<^verbatim>\<open>0x\<close> and the 64 digits of the 32 bytes.\<close>

fun hex_fixed :: "nat \<Rightarrow> nat \<Rightarrow> string" where
  "hex_fixed 0 n = []"
| "hex_fixed (Suc k) n = hex_fixed k (n div 16) @ [hexdigit (n mod 16)]"

definition Hash_Hex :: "hash \<Rightarrow> string" where
  "Hash_Hex h = ''0x'' @ hex_fixed 64 (unat h)"

subsection \<open>The report\<close>

record fromTo =
  From :: string
  To :: string

text \<open>A field of type \<^verbatim>\<open>any\<close> of the report holds the string \<^verbatim>\<open>"="\<close> or a
  \<^verbatim>\<open>fromTo\<close>.\<close>

datatype any = AnyString string | AnyFromTo fromTo

record accountReport =
  Balance :: any
  Nonce :: any
  Code :: any
  Storage :: "string \<rightharpoonup> fromTo"

definition reportStorage :: "accountReport \<Rightarrow> hash \<times> hash diff \<Rightarrow> accountReport" where
  "reportStorage result kv =
     (let k = fst kv; v = snd kv;
          bef = Hash_Hex (before v);
          aft = Hash_Hex (after v)
      in if bef \<noteq> aft
         then result\<lparr>Storage := (Storage result)(Hash_Hex k \<mapsto> \<lparr>From = bef, To = aft\<rparr>)\<rparr>
         else result)"

text \<open>\<^verbatim>\<open>GetResult\<close> applies \<^verbatim>\<open>report\<close> to every entry of the accounts map and marshals
  the results as JSON under the accounts' addresses; the model stops at \<^verbatim>\<open>report\<close>.\<close>

text \<open>The test \<^verbatim>\<open>x != nil\<close> of a slice.\<close>

definition notNil :: "bytes \<Rightarrow> bool" where
  "notNil b \<longleftrightarrow> b \<noteq> None"

text \<open>\<^verbatim>\<open>report\<close>. The test \<^verbatim>\<open>a.balanceDelta != nil\<close> is true of every stored entry. The
  loop over the storage map is a fold over the association list.\<close>

definition report :: "StateDiffTracer \<Rightarrow> address \<Rightarrow> accountDiff \<Rightarrow> panic + accountReport" where
  "report l addr a =
     (let result = \<lparr>Balance = AnyString ''='', Nonce = AnyString ''='', Code = AnyString ''='',
                    Storage = Map.empty\<rparr>
      in andThen
           (if balanceDelta a \<noteq> 0 then
              (case env l of
                 None \<Rightarrow> Inl NilPointerDereference
               | Some e \<Rightarrow>
                   (let delta = balanceDelta a;
                        current = GetBalance (StateDB e) addr
                    in Inr (result\<lparr>Balance := AnyFromTo
                              \<lparr>From = Sprintf_0x_string (Text16 (current - delta)),
                               To = Sprintf_0x_string (Text16 current)\<rparr>\<rparr>)))
            else Inr result)
        (\<lambda>result. andThen
           (if nonceDelta a \<noteq> 0 then
              (case env l of
                 None \<Rightarrow> Inl NilPointerDereference
               | Some e \<Rightarrow>
                   (let current = GetNonce (StateDB e) addr
                    in Inr (result\<lparr>Nonce := AnyFromTo
                              \<lparr>From = Sprintf_0x_uint64 (current - nonceDelta a),
                               To = Sprintf_0x_uint64 current\<rparr>\<rparr>)))
            else Inr result)
        (\<lambda>result.
           (let result =
              (if notNil (before (code a)) \<or> notNil (after (code a)) then
                 (let bef = (case before (code a) of None \<Rightarrow> [] | Some bs \<Rightarrow> EncodeToString bs);
                      aft = (case after (code a) of None \<Rightarrow> [] | Some bs \<Rightarrow> EncodeToString bs)
                  in if bef \<noteq> aft then result\<lparr>Code := AnyFromTo \<lparr>From = bef, To = aft\<rparr>\<rparr>
                     else result)
               else result)
            in Inr (fold (\<lambda>kv result. reportStorage result kv) (storage a) result)))))"

subsection \<open>Entries kept, and example states\<close>

text \<open>\<open>keeps m m'\<close>: every account with an entry in \<open>m\<close> has one in \<open>m'\<close>.\<close>

definition keeps :: "(address \<rightharpoonup> accountDiff) \<Rightarrow> (address \<rightharpoonup> accountDiff) \<Rightarrow> bool" where
  "keeps m m' \<longleftrightarrow> dom m \<subseteq> dom m'"

text \<open>A small host state for the concrete instances: account 2 is a contract with code
  \<^verbatim>\<open>abcd\<close> whose slots 1 and 2 hold 5 and 9; every balance is 100 and every nonce 7. The
  call tracer of the examples leaves its call stack as it is.\<close>

definition ex_db :: StateDB where
  "ex_db = \<lparr>GetBalance = (\<lambda>a. 100), GetNonce = (\<lambda>a. 7),
            GetCode = (\<lambda>a. if a = 2 then Some [0xab, 0xcd] else None),
            GetState = (\<lambda>a k. if a = 2 \<and> k = 1 then 5 else if a = 2 \<and> k = 2 then 9 else 0)\<rparr>"

definition ex_env :: "EVM option" where
  "ex_env = Some \<lparr>StateDB = ex_db\<rparr>"

definition ex_methods :: callTracerMethods where
  "ex_methods = \<lparr>tracer_CaptureTxStart = (\<lambda>g t. t), tracer_CaptureTxEnd = (\<lambda>g t. t),
     tracer_CaptureStart = (\<lambda>e from to create input gas val t. t),
     tracer_CaptureEnd = (\<lambda>output gasUsed er t. t),
     tracer_CaptureEnter = (\<lambda>typ from to input gas val t. t),
     tracer_CaptureExit = (\<lambda>output gasUsed er t. t),
     tracer_CaptureFault = (\<lambda>pc op gas cost scope depth er t. t),
     tracer_Stop = (\<lambda>er t. t)\<rparr>"

text \<open>A tracer after \<^verbatim>\<open>CaptureStart\<close> of a plain call from account 1 to account 2 carrying
  30, with one finished nested call of the same kind.\<close>

definition ex_frame :: callFrame where
  "ex_frame = CallFrame CALL 1 (Some 2) None (Some 30) 21000
                [CallFrame CALL 2 (Some 3) None (Some 4) 700 []]"

definition ex_tracer :: StateDiffTracer where
  "ex_tracer = \<lparr>accounts = Map.empty, env = ex_env, tracer = \<lparr>callstack = [ex_frame]\<rparr>\<rparr>"

text \<open>The same tracer once account 1 has been touched by a nonce increment.\<close>

definition ex_touched :: StateDiffTracer where
  "ex_touched = ex_tracer\<lparr>accounts := [1 \<mapsto> emptyAccDiff\<lparr>nonceDelta := 1\<rparr>]\<rparr>"

text \<open>The scope of an \<^verbatim>\<open>SSTORE\<close> of contract 2 that writes 9 to slot 1.\<close>

definition ex_scope :: ScopeContext where
  "ex_scope = \<lparr>Contract = \<lparr>Address = 2\<rparr>, Stack = \<lparr>Data = [9, 1]\<rparr>\<rparr>"

text \<open>The tracer after \<^verbatim>\<open>recordStorage\<close> of 9 at slot 1 of contract 2, its first touch.\<close>

definition ex_stored :: StateDiffTracer where
  "ex_stored = ex_tracer\<lparr>accounts :=
     [2 \<mapsto> emptyAccDiff\<lparr>storage := [(1, \<lparr>before = 5, after = 9\<rparr>)]\<rparr>]\<rparr>"

subsection \<open>Reading a rendered number\<close>

text \<open>The reader's side of the report, used to state what a rendered numeric field
  denotes: the value of a \<^verbatim>\<open>0x\<close>-prefixed hexadecimal numeral, \<open>None\<close> for any other
  string.\<close>

definition hexval :: "char \<Rightarrow> nat option" where
  "hexval c = map_of (zip ''0123456789abcdef'' [0..<16]) c"

fun hex_read :: "nat \<Rightarrow> string \<Rightarrow> nat option" where
  "hex_read n [] = Some n"
| "hex_read n (c # cs) = (case hexval c of None \<Rightarrow> None | Some d \<Rightarrow> hex_read (16 * n + d) cs)"

definition read_0x :: "string \<Rightarrow> nat option" where
  "read_0x s =
     (case s of
        c0 # c1 # ds \<Rightarrow>
          if c0 = CHR ''0'' \<and> c1 = CHR ''x'' \<and> ds \<noteq> [] then hex_read 0 ds else None
      | _ \<Rightarrow> None)"

subsection \<open>Example states of a creation and of the earlier revision\<close>

text \<open>A tracer before \<^verbatim>\<open>CaptureStart\<close> (its \<^verbatim>\<open>env\<close> is nil) whose call tracer holds a
  top-level frame of type \<^verbatim>\<open>CREATE\<close>: account 1 creates contract 2.\<close>

definition ex_create :: StateDiffTracer where
  "ex_create = \<lparr>accounts = Map.empty, env = None,
                 tracer = \<lparr>callstack = [CallFrame CREATE 1 (Some 2) None None 53000 []]\<rparr>\<rparr>"

text \<open>The tracer of the earlier revision in the state of \<open>ex_tracer\<close>: the transaction has
  used 21000 gas in all (\<^verbatim>\<open>GasUsed\<close> of the top-level frame).\<close>

definition ex_rev0 :: StateDiffTracer_gas where
  "ex_rev0 = \<lparr>accounts = Map.empty, env = ex_env, tracer = \<lparr>callstack = [ex_frame]\<rparr>,
              gasLimit = 100000\<rparr>"


subsection \<open>Example states of a self-destruct\<close>

text \<open>The tracer \<open>ex_tracer\<close> after \<^verbatim>\<open>CaptureExit\<close> of the nested call, by which contract 2
  sent 4 to account 3: the two accounts have entries, from the balance changes.\<close>

definition ex_exited :: StateDiffTracer where
  "ex_exited = ex_tracer\<lparr>accounts :=
     [2 \<mapsto> emptyAccDiff\<lparr>balanceDelta := - 4\<rparr>, 3 \<mapsto> emptyAccDiff\<lparr>balanceDelta := 4\<rparr>]\<rparr>"

text \<open>Contract 2 then destructs itself, naming itself as the beneficiary: the top-level
  frame of the call tracer, once the frame of the \<^verbatim>\<open>SELFDESTRUCT\<close> has been appended to
  its \<^verbatim>\<open>Calls\<close>, and the tracer in that state.\<close>

definition ex_destruct_frame :: callFrame where
  "ex_destruct_frame = CallFrame CALL 1 (Some 2) None (Some 30) 21000
     [CallFrame CALL 2 (Some 3) None (Some 4) 700 [],
      CallFrame SELFDESTRUCT 2 (Some 2) None (Some 100) 0 []]"

definition ex_destruct :: StateDiffTracer where
  "ex_destruct = ex_exited\<lparr>tracer := \<lparr>callstack = [ex_destruct_frame]\<rparr>\<rparr>"

text \<open>The tracer after \<^verbatim>\<open>CaptureExit\<close> of the \<^verbatim>\<open>SELFDESTRUCT\<close>.\<close>

definition ex_destructed :: StateDiffTracer where
  "ex_destructed = ex_destruct\<lparr>accounts :=
     [2 \<mapsto> emptyAccDiff\<lparr>balanceDelta := - 104, code := \<lparr>before = None, after = Some []\<rparr>\<rparr>,
      3 \<mapsto> emptyAccDiff\<lparr>balanceDelta := 4\<rparr>]\<rparr>"


subsection \<open>The callbacks of one transaction\<close>

text \<open>The EVM calls the tracer in this order: \<^verbatim>\<open>CaptureTxStart\<close>, \<^verbatim>\<open>CaptureStart\<close>, then,
  while the transaction executes, \<^verbatim>\<open>CaptureState\<close>, \<^verbatim>\<open>CaptureEnter\<close>, \<^verbatim>\<open>CaptureExit\<close> and
  \<^verbatim>\<open>CaptureFault\<close> in any number and order, then \<^verbatim>\<open>CaptureEnd\<close> and \<^verbatim>\<open>CaptureTxEnd\<close>. A
  callback of the execution is a value of \<open>callback\<close>, holding the arguments.\<close>

datatype callback =
    OnState uint64 OpCode uint64 uint64 ScopeContext bytes int err
  | OnEnter OpCode address address bytes uint64 "int option"
  | OnExit bytes uint64 err
  | OnFault uint64 OpCode uint64 uint64 ScopeContext int err

fun run_callback :: "callTracerMethods \<Rightarrow> StateDiffTracer \<Rightarrow> callback \<Rightarrow> panic + StateDiffTracer" where
  "run_callback M l (OnState pc op gas cost scope rData depth er) =
     CaptureState l pc op gas cost scope rData depth er"
| "run_callback M l (OnEnter opc frm dst inp gas val) =
     Inr (CaptureEnter M l opc frm dst inp gas val)"
| "run_callback M l (OnExit outp gasUsed er) = CaptureExit M l outp gasUsed er"
| "run_callback M l (OnFault pc op gas cost scope depth er) =
     Inr (CaptureFault M l pc op gas cost scope depth er)"

text \<open>\<^verbatim>\<open>l.env\<close> is a pointer to the EVM, whose state changes between two callbacks:
  \<open>withState db l\<close> is the tracer when the state has become \<open>db\<close>.\<close>

definition withState :: "StateDB \<Rightarrow> StateDiffTracer \<Rightarrow> StateDiffTracer" where
  "withState db l = l\<lparr>env := map_option (\<lambda>e. e\<lparr>StateDB := db\<rparr>) (env l)\<rparr>"

text \<open>The callbacks of an execution, each with the state at its time; a panic ends the
  run.\<close>

fun run_callbacks ::
  "callTracerMethods \<Rightarrow> StateDiffTracer \<Rightarrow> (StateDB \<times> callback) list \<Rightarrow> panic + StateDiffTracer" where
  "run_callbacks M l [] = Inr l"
| "run_callbacks M l ((db, cb) # cbs) =
     (case run_callback M (withState db l) cb of
        Inl p \<Rightarrow> Inl p
      | Inr l' \<Rightarrow> run_callbacks M l' cbs)"

text \<open>The number of creations that account \<open>a\<close> enters during an execution: the
  \<^verbatim>\<open>CaptureEnter\<close> callbacks of type \<^verbatim>\<open>CREATE\<close> or \<^verbatim>\<open>CREATE2\<close> whose \<^verbatim>\<open>from\<close> is \<open>a\<close>.\<close>

fun entersCreation :: "address \<Rightarrow> callback \<Rightarrow> bool" where
  "entersCreation a (OnEnter opc frm dst inp gas val) \<longleftrightarrow> (opc = CREATE \<or> opc = CREATE2) \<and> frm = a"
| "entersCreation a _ \<longleftrightarrow> False"

definition creationsBy :: "address \<Rightarrow> (StateDB \<times> callback) list \<Rightarrow> nat" where
  "creationsBy a cbs = length (filter (\<lambda>c. entersCreation a (snd c)) cbs)"

text \<open>The callbacks of the executions of the examples: contract 2 writes 9 to its slot 1
  and its nested call returns; and, in the creation, the new contract 2 creates contract
  5 and writes 9 to its slot 1.\<close>

definition ex_callbacks :: "(StateDB \<times> callback) list" where
  "ex_callbacks = [(ex_db, OnState 0 SSTORE 0 0 ex_scope None 1 None), (ex_db, OnExit None 700 None)]"

definition ex_create_callbacks :: "(StateDB \<times> callback) list" where
  "ex_create_callbacks =
     [(ex_db, OnEnter CREATE2 2 5 None 0 None), (ex_db, OnState 0 SSTORE 0 0 ex_scope None 2 None)]"

section \<open>The diff store keeps its entries\<close>

lemma keeps_refl [simp]: "keeps m m"
  by (simp add: keeps_def)

lemma tryInitAccDiff_None:
  "accounts l addr = None \<Longrightarrow>
   tryInitAccDiff l addr = (l\<lparr>accounts := (accounts l)(addr \<mapsto> emptyAccDiff)\<rparr>, True)"
  by (simp add: tryInitAccDiff_def)

lemma tryInitAccDiff_Some:
  "accounts l addr = Some d \<Longrightarrow> tryInitAccDiff l addr = (l, False)"
  by (simp add: tryInitAccDiff_def)

lemma tryInitAccDiff_again:
  "tryInitAccDiff (fst (tryInitAccDiff l addr)) addr = (fst (tryInitAccDiff l addr), False)"
  by (cases "accounts l addr") (simp_all add: tryInitAccDiff_def)

lemma keeps_tryInitAccDiff:
  "keeps m (accounts l) \<Longrightarrow> keeps m (accounts (fst (tryInitAccDiff l addr)))"
  by (auto simp: keeps_def tryInitAccDiff_def split: option.splits)

lemma keeps_recordNonceIncrese:
  "keeps m (accounts l) \<Longrightarrow> keeps m (accounts (recordNonceIncrese l addr))"
  by (auto simp: keeps_def recordNonceIncrese_def tryInitAccDiff_def Let_def split: option.splits)

lemma keeps_recordBalanceChange:
  "keeps m (accounts l) \<Longrightarrow> keeps m (accounts (recordBalanceChange l addr x))"
  by (auto simp: keeps_def recordBalanceChange_def tryInitAccDiff_def Let_def split: option.splits)

lemma keeps_recordCode:
  "recordCode l addr c = Inr l' \<Longrightarrow> keeps m (accounts l) \<Longrightarrow> keeps m (accounts l')"
  by (auto simp: keeps_def recordCode_def tryInitAccDiff_def Let_def
      split: option.splits if_splits)

lemma keeps_recordStorage:
  "recordStorage l addr k v = Inr l' \<Longrightarrow> keeps m (accounts l) \<Longrightarrow> keeps m (accounts l')"
  by (auto simp: keeps_def recordStorage_def tryInitAccDiff_def Let_def
      split: option.splits if_splits)

lemma andThen_Inr:
  "andThen m f = Inr y \<longleftrightarrow> (\<exists>x. m = Inr x \<and> f x = Inr y)"
  by (cases m) (simp_all add: andThen_def)

lemma keeps_etherTransfer:
  "etherTransfer l cf = Inr l' \<Longrightarrow> keeps m (accounts l) \<Longrightarrow> keeps m (accounts l')"
  by (auto simp: etherTransfer_def split: option.splits intro!: keeps_recordBalanceChange)

lemma keeps_CaptureTxEnd:
  "CaptureTxEnd M l restGas = Inr l' \<Longrightarrow> keeps (accounts l) (accounts l')"
  by (auto simp: CaptureTxEnd_def Let_def split: list.splits if_splits
      intro!: keeps_recordBalanceChange keeps_recordNonceIncrese)

lemma keeps_CaptureStart:
  "keeps (accounts l) (accounts (CaptureStart M l e from to create input gas val))"
  by (auto simp: CaptureStart_def Let_def intro!: keeps_recordNonceIncrese)

lemma keeps_CaptureEnter:
  "keeps (accounts l) (accounts (CaptureEnter M l typ from to input gas val))"
  by (auto simp: CaptureEnter_def Let_def intro!: keeps_recordNonceIncrese)

lemma keeps_CaptureEnd:
  "CaptureEnd M l outp gasUsed er = Inr l' \<Longrightarrow> keeps (accounts l) (accounts l')"
  by (auto simp: CaptureEnd_def Let_def andThen_Inr split: list.splits if_splits option.splits
      elim!: keeps_etherTransfer keeps_recordCode)

lemma keeps_CaptureExit:
  "CaptureExit M l outp gasUsed er = Inr l' \<Longrightarrow> keeps (accounts l) (accounts l')"
  by (auto simp: CaptureExit_def Let_def andThen_Inr split: list.splits if_splits option.splits
      elim!: keeps_etherTransfer keeps_recordCode intro!: keeps_recordBalanceChange)

lemma keeps_CaptureState:
  "CaptureState l pc op gas cost scope rData depth er = Inr l' \<Longrightarrow> keeps (accounts l) (accounts l')"
  by (auto simp: CaptureState_def Let_def split: if_splits elim!: keeps_recordStorage)

text \<open>C8. \<^verbatim>\<open>tryInitAccDiff\<close> creates an entry once and never overwrites one: for an
  account without an entry it stores the entry with zero balance delta, zero nonce delta,
  empty storage map and empty (nil, nil) code diff and returns true; for an account with an
  entry it leaves the tracer as it is and returns false, so that a second call changes
  nothing; and no operation of the diff store and no callback removes an entry: the
  accounts with an entry before are among those with an entry after.\<close>

theorem tryInitAccDiff_idempotent_no_delete:
  fixes l :: StateDiffTracer
  shows
  "(accounts l addr = None \<longrightarrow>
      tryInitAccDiff l addr =
        (l\<lparr>accounts := (accounts l)(addr \<mapsto>
            \<lparr>balanceDelta = 0, nonceDelta = 0, storage = [],
             code = \<lparr>before = None, after = None\<rparr>\<rparr>)\<rparr>, True)) \<and>
   (accounts l addr \<noteq> None \<longrightarrow> tryInitAccDiff l addr = (l, False)) \<and>
   tryInitAccDiff (fst (tryInitAccDiff l addr)) addr = (fst (tryInitAccDiff l addr), False) \<and>
   dom (accounts l) \<subseteq> dom (accounts (fst (tryInitAccDiff l addr))) \<and>
   dom (accounts l) \<subseteq> dom (accounts (recordNonceIncrese l addr)) \<and>
   dom (accounts l) \<subseteq> dom (accounts (recordBalanceChange l addr delta)) \<and>
   (\<forall>l'. recordCode l addr c = Inr l' \<longrightarrow> dom (accounts l) \<subseteq> dom (accounts l')) \<and>
   (\<forall>l'. recordStorage l addr key val = Inr l' \<longrightarrow> dom (accounts l) \<subseteq> dom (accounts l')) \<and>
   dom (accounts l) \<subseteq> dom (accounts (CaptureTxStart M l gasLim)) \<and>
   (\<forall>l'. CaptureTxEnd M l restGas = Inr l' \<longrightarrow> dom (accounts l) \<subseteq> dom (accounts l')) \<and>
   dom (accounts l) \<subseteq> dom (accounts (CaptureStart M l e frm dst create inp gas v)) \<and>
   (\<forall>l'. CaptureEnd M l outp gasUsed er = Inr l' \<longrightarrow> dom (accounts l) \<subseteq> dom (accounts l')) \<and>
   dom (accounts l) \<subseteq> dom (accounts (CaptureEnter M l opc frm dst inp gas v)) \<and>
   (\<forall>l'. CaptureExit M l outp gasUsed er = Inr l' \<longrightarrow> dom (accounts l) \<subseteq> dom (accounts l')) \<and>
   (\<forall>l'. CaptureState l pc op gas cost scope rData depth er = Inr l' \<longrightarrow>
          dom (accounts l) \<subseteq> dom (accounts l'))"
proof -
  have k: "keeps (accounts l) (accounts l)" by simp
  have c1: "accounts l addr = None \<longrightarrow>
      tryInitAccDiff l addr =
        (l\<lparr>accounts := (accounts l)(addr \<mapsto>
            \<lparr>balanceDelta = 0, nonceDelta = 0, storage = [],
             code = \<lparr>before = None, after = None\<rparr>\<rparr>)\<rparr>, True)"
    by (simp add: tryInitAccDiff_None emptyAccDiff_def)
  have c2: "accounts l addr \<noteq> None \<longrightarrow> tryInitAccDiff l addr = (l, False)"
    by (auto simp: tryInitAccDiff_Some)
  have c3: "tryInitAccDiff (fst (tryInitAccDiff l addr)) addr = (fst (tryInitAccDiff l addr), False)"
    by (rule tryInitAccDiff_again)
  have c4: "dom (accounts l) \<subseteq> dom (accounts (fst (tryInitAccDiff l addr)))"
    using keeps_tryInitAccDiff [OF k] by (simp add: keeps_def)
  have c5: "dom (accounts l) \<subseteq> dom (accounts (recordNonceIncrese l addr))"
    using keeps_recordNonceIncrese [OF k] by (simp add: keeps_def)
  have c6: "dom (accounts l) \<subseteq> dom (accounts (recordBalanceChange l addr delta))"
    using keeps_recordBalanceChange [OF k] by (simp add: keeps_def)
  have c7: "\<forall>l'. recordCode l addr c = Inr l' \<longrightarrow> dom (accounts l) \<subseteq> dom (accounts l')"
    using keeps_recordCode [OF _ k] by (simp add: keeps_def)
  have c8: "\<forall>l'. recordStorage l addr key val = Inr l' \<longrightarrow> dom (accounts l) \<subseteq> dom (accounts l')"
    using keeps_recordStorage [OF _ k] by (simp add: keeps_def)
  have c9: "dom (accounts l) \<subseteq> dom (accounts (CaptureTxStart M l gasLim))"
    by (simp add: CaptureTxStart_def)
  have c10: "\<forall>l'. CaptureTxEnd M l restGas = Inr l' \<longrightarrow> dom (accounts l) \<subseteq> dom (accounts l')"
    using keeps_CaptureTxEnd by (simp add: keeps_def)
  have c11: "dom (accounts l) \<subseteq> dom (accounts (CaptureStart M l e frm dst create inp gas v))"
    using keeps_CaptureStart by (simp add: keeps_def)
  have c12: "\<forall>l'. CaptureEnd M l outp gasUsed er = Inr l' \<longrightarrow> dom (accounts l) \<subseteq> dom (accounts l')"
    using keeps_CaptureEnd by (simp add: keeps_def)
  have c13: "dom (accounts l) \<subseteq> dom (accounts (CaptureEnter M l opc frm dst inp gas v))"
    using keeps_CaptureEnter by (simp add: keeps_def)
  have c14: "\<forall>l'. CaptureExit M l outp gasUsed er = Inr l' \<longrightarrow> dom (accounts l) \<subseteq> dom (accounts l')"
    using keeps_CaptureExit by (simp add: keeps_def)
  have c15: "\<forall>l'. CaptureState l pc op gas cost scope rData depth er = Inr l' \<longrightarrow>
          dom (accounts l) \<subseteq> dom (accounts l')"
    using keeps_CaptureState by (simp add: keeps_def)
  show ?thesis
    by (intro conjI) (rule c1 c2 c3 c4 c5 c6 c7 c8 c9 c10 c11 c12 c13 c14 c15)+
qed

theorem tryInitAccDiff_idempotent_no_delete_witness:
  "accounts ex_touched 2 = None \<and>
   tryInitAccDiff ex_touched 2 =
     (ex_touched\<lparr>accounts := (accounts ex_touched)(2 \<mapsto>
        \<lparr>balanceDelta = 0, nonceDelta = 0, storage = [],
         code = \<lparr>before = None, after = None\<rparr>\<rparr>)\<rparr>, True) \<and>
   accounts ex_touched 1 \<noteq> None \<and>
   tryInitAccDiff ex_touched 1 = (ex_touched, False) \<and>
   (\<exists>l'. recordCode ex_touched 2 (Some []) = Inr l' \<and> 1 \<in> dom (accounts l')) \<and>
   (\<exists>l'. recordStorage ex_touched 2 1 9 = Inr l' \<and> 1 \<in> dom (accounts l')) \<and>
   (\<exists>l'. CaptureTxEnd ex_methods ex_touched 0 = Inr l' \<and> 1 \<in> dom (accounts l')) \<and>
   (\<exists>l'. CaptureEnd ex_methods ex_touched None 21000 None = Inr l' \<and> 1 \<in> dom (accounts l')) \<and>
   (\<exists>l'. CaptureExit ex_methods ex_touched None 700 None = Inr l' \<and> 1 \<in> dom (accounts l')) \<and>
   (\<exists>l'. CaptureState ex_touched 0 SSTORE 0 0 ex_scope None 1 None = Inr l' \<and>
          1 \<in> dom (accounts l'))"
proof -
  note ex = ex_touched_def ex_tracer_def ex_env_def ex_db_def ex_methods_def ex_frame_def
    ex_scope_def emptyAccDiff_def
  have d: "1 \<in> dom (accounts ex_touched)" by (simp add: ex)
  have h1: "accounts ex_touched 2 = None" by (simp add: ex)
  have h2: "accounts ex_touched 1 \<noteq> None" by (simp add: ex)
  have e1: "\<exists>l'. recordCode ex_touched 2 (Some []) = Inr l'"
    by (simp add: recordCode_def tryInitAccDiff_def getAcc_def Let_def ex)
  have e2: "\<exists>l'. recordStorage ex_touched 2 1 9 = Inr l'"
    by (simp add: recordStorage_def tryInitAccDiff_def getAcc_def ex)
  have e3: "\<exists>l'. CaptureTxEnd ex_methods ex_touched 0 = Inr l'"
    by (simp add: CaptureTxEnd_def ex)
  have e4: "\<exists>l'. CaptureEnd ex_methods ex_touched None 21000 None = Inr l'"
    by (simp add: CaptureEnd_def etherTransfer_def andThen_def ex)
  have e5: "\<exists>l'. CaptureExit ex_methods ex_touched None 700 None = Inr l'"
    by (simp add: CaptureExit_def etherTransfer_def andThen_def ex)
  have e6: "\<exists>l'. CaptureState ex_touched 0 SSTORE 0 0 ex_scope None 1 None = Inr l'"
    by (simp add: CaptureState_def recordStorage_def tryInitAccDiff_def getAcc_def ex)
  note T2 = tryInitAccDiff_idempotent_no_delete
    [where l = ex_touched and addr = 2 and delta = 0 and c = "Some []" and key = 1 and val = 9
       and M = ex_methods and gasLim = 0 and restGas = 0 and e = None and frm = 1 and dst = 2
       and create = False and inp = None and gas = 0 and v = None and opc = CALL
       and outp = None and gasUsed = 21000 and er = None
       and pc = 0 and op = SSTORE and cost = 0 and scope = ex_scope
       and rData = None and depth = 1]
  note T3 = tryInitAccDiff_idempotent_no_delete
    [where l = ex_touched and addr = 1 and delta = 0 and c = "Some []" and key = 1 and val = 9
       and M = ex_methods and gasLim = 0 and restGas = 0 and e = None and frm = 1 and dst = 2
       and create = False and inp = None and gas = 0 and v = None and opc = CALL
       and outp = None and gasUsed = 700 and er = None
       and pc = 0 and op = SSTORE and cost = 0 and scope = ex_scope
       and rData = None and depth = 1]
  note a = T2 [THEN conjunct1, THEN mp, OF h1]
  note b = T3 [THEN conjunct2, THEN conjunct1, THEN mp, OF h2]
  note R = T2 [THEN conjunct2, THEN conjunct2, THEN conjunct2, THEN conjunct2, THEN conjunct2,
    THEN conjunct2]
  note r7 = R [THEN conjunct1, THEN spec, THEN mp]
  note r8 = R [THEN conjunct2, THEN conjunct1, THEN spec, THEN mp]
  note r10 = R [THEN conjunct2, THEN conjunct2, THEN conjunct2, THEN conjunct1, THEN spec, THEN mp]
  note r12 = R [THEN conjunct2, THEN conjunct2, THEN conjunct2, THEN conjunct2, THEN conjunct2,
    THEN conjunct1, THEN spec, THEN mp]
  note r14 = T3 [THEN conjunct2, THEN conjunct2, THEN conjunct2, THEN conjunct2, THEN conjunct2,
    THEN conjunct2, THEN conjunct2, THEN conjunct2, THEN conjunct2, THEN conjunct2,
    THEN conjunct2, THEN conjunct2, THEN conjunct2, THEN conjunct1, THEN spec, THEN mp]
  note r15 = R [THEN conjunct2, THEN conjunct2, THEN conjunct2, THEN conjunct2, THEN conjunct2,
    THEN conjunct2, THEN conjunct2, THEN conjunct2, THEN spec, THEN mp]
  from e1 r7 d have g1: "\<exists>l'. recordCode ex_touched 2 (Some []) = Inr l' \<and> 1 \<in> dom (accounts l')"
    by blast
  from e2 r8 d have g2: "\<exists>l'. recordStorage ex_touched 2 1 9 = Inr l' \<and> 1 \<in> dom (accounts l')"
    by blast
  from e3 r10 d have g3: "\<exists>l'. CaptureTxEnd ex_methods ex_touched 0 = Inr l' \<and> 1 \<in> dom (accounts l')"
    by blast
  from e4 r12 d have g4: "\<exists>l'. CaptureEnd ex_methods ex_touched None 21000 None = Inr l' \<and> 1 \<in> dom (accounts l')"
    by blast
  from e5 r14 d have g5: "\<exists>l'. CaptureExit ex_methods ex_touched None 700 None = Inr l' \<and> 1 \<in> dom (accounts l')"
    by blast
  from e6 r15 d have g6: "\<exists>l'. CaptureState ex_touched 0 SSTORE 0 0 ex_scope None 1 None = Inr l' \<and>
          1 \<in> dom (accounts l')"
    by blast
  from h1 a h2 b g1 g2 g3 g4 g5 g6 show ?thesis by (intro conjI)
qed

text \<open>The remaining callbacks, and those of the earlier revision, keep the entries as
  well.\<close>

lemma keeps_CaptureFault_Stop:
  "keeps (accounts l) (accounts (CaptureFault M l pc op gas cost scope depth er))"
  "keeps (accounts l') (accounts (Stop M l' er))"
  by (simp_all add: CaptureFault_def Stop_def)

lemma keeps_rev0_total:
  "keeps (accounts l) (accounts (CaptureTxStart_rev0 M l gasLim))"
  "keeps (accounts l) (accounts (WrappedTransferFunc_rev0 l sender recipient amount))"
  "keeps (accounts l) (accounts (Stop_rev0 l er))"
  by (simp_all add: CaptureTxStart_rev0_def WrappedTransferFunc_rev0_def Stop_rev0_def Let_def
      keeps_recordBalanceChange)

lemma keeps_CaptureTxEnd_rev0:
  "CaptureTxEnd_rev0 M l restGas = Inr l' \<Longrightarrow> keeps (accounts l) (accounts l')"
  by (auto simp: CaptureTxEnd_rev0_def Let_def split: list.splits
      intro!: keeps_recordBalanceChange)

lemma keeps_CaptureEnd_rev0:
  "CaptureEnd_rev0 M l outp gasUsed er = Inr l' \<Longrightarrow> keeps (accounts l) (accounts l')"
  by (auto simp: CaptureEnd_rev0_def Let_def split: list.splits if_splits option.splits
      elim!: keeps_recordCode intro!: keeps_recordBalanceChange)

lemma keeps_CaptureExit_rev0:
  "CaptureExit_rev0 M l outp gasUsed er = Inr l' \<Longrightarrow> keeps (accounts l) (accounts l')"
  by (auto simp: CaptureExit_rev0_def Let_def andThen_Inr split: if_splits option.splits
      elim!: keeps_recordCode intro!: keeps_recordBalanceChange)

section \<open>Recording storage and code\<close>

lemma recordStorage_first_touch:
  assumes "accounts l addr = None" and "env l = Some e"
  shows "recordStorage l addr key aft =
           Inr (l\<lparr>accounts := (accounts l)(addr \<mapsto> emptyAccDiff\<lparr>storage :=
                  [(key, \<lparr>before = GetState (StateDB e) addr key, after = aft\<rparr>)]\<rparr>)\<rparr>)"
  using assms
  by (simp add: recordStorage_def tryInitAccDiff_def getAcc_def getSlot_def zeroHashDiff_def
      emptyAccDiff_def)

lemma recordStorage_later_touch:
  assumes "accounts l addr = Some d"
  shows "recordStorage l addr key aft =
           Inr (l\<lparr>accounts := (accounts l)(addr \<mapsto> d\<lparr>storage :=
                  AList.update key ((getSlot (storage d) key)\<lparr>after := aft\<rparr>) (storage d)\<rparr>)\<rparr>)"
  using assms by (simp add: recordStorage_def tryInitAccDiff_def getAcc_def)

text \<open>What \<^verbatim>\<open>recordStorage\<close> does with the \<^verbatim>\<open>before\<close> of a slot: it reads the state only
  when the call creates the account's entry; on an account that has an entry, a slot not
  yet in the map gets the zero hash, whatever the state holds.\<close>

lemma recordStorage_before:
  assumes "recordStorage l addr key aft = Inr l'"
  shows "\<exists>d'. accounts l' addr = Some d' \<and>
           after (getSlot (storage d') key) = aft \<and>
           (accounts l addr = None \<longrightarrow>
              (\<exists>e. env l = Some e \<and> before (getSlot (storage d') key) = GetState (StateDB e) addr key)) \<and>
           (\<forall>d. accounts l addr = Some d \<longrightarrow>
              before (getSlot (storage d') key) =
                (case map_of (storage d) key of None \<Rightarrow> 0 | Some v \<Rightarrow> before v))"
proof (cases "accounts l addr")
  case None
  with assms obtain e where e: "env l = Some e"
    by (cases "env l") (simp_all add: recordStorage_def tryInitAccDiff_def)
  from recordStorage_first_touch [OF None e, of key aft] assms None e show ?thesis
    by (auto simp: getSlot_def)
next
  case (Some d)
  from recordStorage_later_touch [OF Some, of key aft] assms Some show ?thesis
    by (auto simp: getSlot_def update_conv' zeroHashDiff_def split: option.splits)
qed

text \<open>C1. The claim asks that a slot first touched after its account was touched still gets
  its \<^verbatim>\<open>before\<close> from the state. The code does not: contract 2 is first touched by a
  write of 9 to slot 1 (\<^verbatim>\<open>before\<close> 5, read from the state); a later write of 7 to slot 2,
  which holds 9 in the state, records \<^verbatim>\<open>before\<close> 0 for slot 2.\<close>

theorem recordStorage_later_slot_before_is_zero:
  "recordStorage ex_tracer 2 1 9 = Inr ex_stored \<and>
   recordStorage ex_stored 2 2 7 =
     Inr (ex_tracer\<lparr>accounts :=
       [2 \<mapsto> emptyAccDiff\<lparr>storage := [(1, \<lparr>before = 5, after = 9\<rparr>),
                                          (2, \<lparr>before = 0, after = 7\<rparr>)]\<rparr>]\<rparr>) \<and>
   env ex_stored = Some \<lparr>StateDB = ex_db\<rparr> \<and> GetState ex_db 2 2 = 9"
  by (simp add: recordStorage_def tryInitAccDiff_def getAcc_def getSlot_def zeroHashDiff_def
      emptyAccDiff_def ex_stored_def ex_tracer_def ex_env_def ex_db_def)

lemma recordCode_first_touch:
  assumes "accounts l addr = None" and "env l = Some e"
  shows "recordCode l addr c =
           Inr (l\<lparr>accounts := (accounts l)(addr \<mapsto> emptyAccDiff\<lparr>code :=
                  \<lparr>before = Some (case GetCode (StateDB e) addr of None \<Rightarrow> [] | Some bs \<Rightarrow> bs),
                   after = c\<rparr>\<rparr>)\<rparr>)"
  using assms
  by (cases "GetCode (StateDB e) addr")
     (simp_all add: recordCode_def tryInitAccDiff_def getAcc_def emptyAccDiff_def)

lemma recordCode_later_touch:
  assumes "accounts l addr = Some d"
  shows "recordCode l addr c =
           Inr (l\<lparr>accounts := (accounts l)(addr \<mapsto> d\<lparr>code := (code d)\<lparr>after := c\<rparr>\<rparr>)\<rparr>)"
  using assms by (simp add: recordCode_def tryInitAccDiff_def getAcc_def)

text \<open>What \<^verbatim>\<open>recordCode\<close> does on every input: \<^verbatim>\<open>after\<close> is set to the new code; \<^verbatim>\<open>before\<close>
  is read from the state (a nil read turned into the empty slice) only when the call
  creates the account's entry, and is left as it is for an account that has an entry,
  also when no code was ever recorded for it.\<close>

lemma recordCode_effect:
  "(recordCode l addr c = Inr l' \<longrightarrow>
      (\<exists>d'. accounts l' addr = Some d' \<and> after (code d') = c \<and>
         (accounts l addr = None \<longrightarrow>
            (\<exists>e. env l = Some e \<and>
                 before (code d') =
                   Some (case GetCode (StateDB e) addr of None \<Rightarrow> [] | Some bs \<Rightarrow> bs))) \<and>
         (\<forall>d. accounts l addr = Some d \<longrightarrow> before (code d') = before (code d))) \<and>
      (\<forall>a. a \<noteq> addr \<longrightarrow> accounts l' a = accounts l a)) \<and>
   (accounts l addr \<noteq> None \<or> env l \<noteq> None \<longrightarrow> (\<exists>l'. recordCode l addr c = Inr l'))"
proof (cases "accounts l addr")
  case None
  show ?thesis
  proof (cases "env l")
    case envNone: None
    with None show ?thesis by (simp add: recordCode_def tryInitAccDiff_def)
  next
    case (Some e)
    from recordCode_first_touch [OF None Some, of c] None Some show ?thesis by auto
  qed
next
  case (Some d)
  from recordCode_later_touch [OF Some, of c] Some show ?thesis by auto
qed

text \<open>C4. The claim asks that \<^verbatim>\<open>before\<close> is captured from the state, as a non-nil byte
  sequence, at the first code recording. The code captures it only when the code recording
  is the account's first touch of any kind: the test is \<^verbatim>\<open>isInit\<close>, the result of
  \<^verbatim>\<open>tryInitAccDiff\<close>, as in \<^verbatim>\<open>recordStorage\<close>. Contract 2, whose code in the state is
  \<^verbatim>\<open>abcd\<close>, is first touched by the balance change of a nested call that carries value;
  when it then destructs itself, \<^verbatim>\<open>recordCode\<close> leaves \<^verbatim>\<open>before\<close> nil and sets \<^verbatim>\<open>after\<close> to the
  empty slice, and the report says that the code is unchanged.\<close>

theorem recordCode_before_nil_after_other_touch:
  "CaptureExit ex_methods ex_tracer None 700 None = Inr ex_exited \<and>
   recordCode ex_destruct 2 (Some []) =
     Inr (ex_destruct\<lparr>accounts :=
       [2 \<mapsto> emptyAccDiff\<lparr>balanceDelta := - 4, code := \<lparr>before = None, after = Some []\<rparr>\<rparr>,
        3 \<mapsto> emptyAccDiff\<lparr>balanceDelta := 4\<rparr>]\<rparr>) \<and>
   CaptureExit ex_methods ex_destruct None 0 None = Inr ex_destructed \<and>
   map_option code (accounts ex_destructed 2) = Some \<lparr>before = None, after = Some []\<rparr> \<and>
   env ex_destructed = Some \<lparr>StateDB = ex_db\<rparr> \<and> GetCode ex_db 2 = Some [0xab, 0xcd] \<and>
   map_sum id Code (report ex_destructed 2 (getAcc ex_destructed 2)) = Inr (AnyString ''='')"
proof -
  note ex = ex_destructed_def ex_destruct_def ex_destruct_frame_def ex_exited_def ex_tracer_def
    ex_frame_def ex_env_def ex_methods_def
  note ops = recordCode_def recordBalanceChange_def tryInitAccDiff_def getAcc_def
    emptyAccDiff_def etherTransfer_def andThen_def
  have a: "CaptureExit ex_methods ex_tracer None 700 None = Inr ex_exited"
    by (simp add: CaptureExit_def Let_def ops ex)
  have b: "recordCode ex_destruct 2 (Some []) =
     Inr (ex_destruct\<lparr>accounts :=
       [2 \<mapsto> emptyAccDiff\<lparr>balanceDelta := - 4, code := \<lparr>before = None, after = Some []\<rparr>\<rparr>,
        3 \<mapsto> emptyAccDiff\<lparr>balanceDelta := 4\<rparr>]\<rparr>)"
    by (simp add: ops ex fun_upd_twist)
  have c: "CaptureExit ex_methods ex_destruct None 0 None = Inr ex_destructed"
    by (simp add: CaptureExit_def Let_def ops ex ex_db_def fun_upd_twist)
  have d: "map_option code (accounts ex_destructed 2) = Some \<lparr>before = None, after = Some []\<rparr>"
    by (simp add: ex emptyAccDiff_def)
  have e: "env ex_destructed = Some \<lparr>StateDB = ex_db\<rparr>" by (simp add: ex)
  have g: "GetCode ex_db 2 = Some [0xab, 0xcd]" by (simp add: ex_db_def)
  have r: "map_sum id Code (report ex_destructed 2 (getAcc ex_destructed 2)) = Inr (AnyString ''='')"
    by (simp add: report_def andThen_def Let_def notNil_def getAcc_def emptyAccDiff_def
        EncodeToString_def ex)
  from a b c d e g r show ?thesis by (intro conjI)
qed

text \<open>The association lists that stand for storage maps have one binding for each key:
  a new entry has the empty map, \<^verbatim>\<open>recordStorage\<close> assigns at one key, and the other
  operations leave the maps alone.\<close>

lemma distinct_storage_recordStorage:
  assumes "recordStorage l addr key aft = Inr l'"
    and "\<forall>a d. accounts l a = Some d \<longrightarrow> distinct (map fst (storage d))"
  shows "\<forall>a d. accounts l' a = Some d \<longrightarrow> distinct (map fst (storage d))"
proof (cases "accounts l addr")
  case None
  with assms(1) obtain e where e: "env l = Some e"
    by (cases "env l") (simp_all add: recordStorage_def tryInitAccDiff_def)
  from recordStorage_first_touch [OF None e, of key aft] assms show ?thesis
    by (auto simp: emptyAccDiff_def)
next
  case (Some d)
  from recordStorage_later_touch [OF Some, of key aft] assms Some show ?thesis
    by (auto simp: distinct_update)
qed

lemma distinct_storage_recordCode:
  assumes "recordCode l addr c = Inr l'"
    and "\<forall>a d. accounts l a = Some d \<longrightarrow> distinct (map fst (storage d))"
  shows "\<forall>a d. accounts l' a = Some d \<longrightarrow> distinct (map fst (storage d))"
proof (cases "accounts l addr")
  case None
  with assms(1) obtain e where e: "env l = Some e"
    by (cases "env l") (simp_all add: recordCode_def tryInitAccDiff_def)
  from recordCode_first_touch [OF None e, of c] assms show ?thesis
    by (auto simp: emptyAccDiff_def)
next
  case (Some d)
  from recordCode_later_touch [OF Some, of c] assms Some show ?thesis by auto
qed

lemma distinct_storage_recordBalanceChange:
  assumes "\<forall>a d. accounts l a = Some d \<longrightarrow> distinct (map fst (storage d))"
  shows "\<forall>a d. accounts (recordBalanceChange l addr x) a = Some d \<longrightarrow> distinct (map fst (storage d))"
  using assms
  by (cases "accounts l addr")
     (auto simp: recordBalanceChange_def tryInitAccDiff_def getAcc_def emptyAccDiff_def)

lemma distinct_storage_recordNonceIncrese:
  assumes "\<forall>a d. accounts l a = Some d \<longrightarrow> distinct (map fst (storage d))"
  shows "\<forall>a d. accounts (recordNonceIncrese l addr) a = Some d \<longrightarrow> distinct (map fst (storage d))"
  using assms
  by (cases "accounts l addr")
     (auto simp: recordNonceIncrese_def tryInitAccDiff_def getAcc_def emptyAccDiff_def)

section \<open>The opcode callback\<close>

text \<open>What a call of \<^verbatim>\<open>recordStorage\<close> that returns has recorded: the account has an entry
  whose storage map binds the slot to a pair with the new value as \<^verbatim>\<open>after\<close>; the other
  slots of the account and the entries of the other accounts are as before. The call
  returns when the account has an entry or the tracer has its environment, and panics on
  the nil environment otherwise.\<close>

lemma recordStorage_records:
  assumes "accounts l addr \<noteq> None \<or> env l \<noteq> None"
  shows "\<exists>l' d' v'. recordStorage l addr key aft = Inr l' \<and>
           accounts l' addr = Some d' \<and> map_of (storage d') key = Some v' \<and> after v' = aft \<and>
           (\<forall>k. k \<noteq> key \<longrightarrow> map_of (storage d') k = map_of (storage (getAcc l addr)) k) \<and>
           (\<forall>a. a \<noteq> addr \<longrightarrow> accounts l' a = accounts l a)"
proof (cases "accounts l addr")
  case None
  with assms obtain e where e: "env l = Some e" by auto
  from recordStorage_first_touch [OF None e, of key aft] None show ?thesis
    by (simp add: getAcc_def zeroAccDiff_def)
next
  case (Some d)
  from recordStorage_later_touch [OF Some, of key aft] Some show ?thesis
    by (simp add: getAcc_def update_conv')
qed

lemma recordStorage_panics:
  "accounts l addr = None \<Longrightarrow> env l = None \<Longrightarrow>
   recordStorage l addr key aft = Inl NilPointerDereference"
  by (simp add: recordStorage_def tryInitAccDiff_def)

text \<open>C9. On \<^verbatim>\<open>SSTORE\<close> with fewer than two operands on the stack \<^verbatim>\<open>CaptureState\<close> returns
  the tracer unchanged and does not panic. With at least two operands the stack ends in
  the value and, on top, the slot; both reads are within the stack; the callback is
  \<^verbatim>\<open>recordStorage\<close> of that slot and value for the address of the executing contract, and
  it records the change: whenever the contract has an entry or the tracer has its
  environment (it has, from \<^verbatim>\<open>CaptureStart\<close> on) the callback returns a tracer in which the
  contract's entry binds the slot to a pair whose \<^verbatim>\<open>after\<close> is the value, with the
  contract's other slots and the other accounts' entries as before. (Without an entry
  and without environment the read of the state panics.)\<close>

theorem CaptureState_SSTORE_operands:
  "(length (Data (Stack scope)) < 2 \<longrightarrow>
      CaptureState l pc SSTORE gas cost scope rData depth er = Inr l) \<and>
   (2 \<le> length (Data (Stack scope)) \<longrightarrow>
      length (Data (Stack scope)) - 1 < length (Data (Stack scope)) \<and>
      length (Data (Stack scope)) - 2 < length (Data (Stack scope)) \<and>
      (\<exists>below val slot. Data (Stack scope) = below @ [val, slot] \<and>
         CaptureState l pc SSTORE gas cost scope rData depth er =
           recordStorage l (Address (Contract scope)) slot val \<and>
         (accounts l (Address (Contract scope)) \<noteq> None \<or> env l \<noteq> None \<longrightarrow>
            (\<exists>l' d' v'. CaptureState l pc SSTORE gas cost scope rData depth er = Inr l' \<and>
               accounts l' (Address (Contract scope)) = Some d' \<and>
               map_of (storage d') slot = Some v' \<and> after v' = val \<and>
               (\<forall>k. k \<noteq> slot \<longrightarrow>
                  map_of (storage d') k =
                    map_of (storage (getAcc l (Address (Contract scope)))) k) \<and>
               (\<forall>a. a \<noteq> Address (Contract scope) \<longrightarrow> accounts l' a = accounts l a))) \<and>
         (accounts l (Address (Contract scope)) = None \<and> env l = None \<longrightarrow>
            CaptureState l pc SSTORE gas cost scope rData depth er = Inl NilPointerDereference)))"
proof -
  let ?xs = "Data (Stack scope)" and ?addr = "Address (Contract scope)"
  let ?C = "CaptureState l pc SSTORE gas cost scope rData depth er"
  have two: "\<exists>below val slot. ?xs = below @ [val, slot] \<and>
         ?C = recordStorage l ?addr slot val \<and>
         (accounts l ?addr \<noteq> None \<or> env l \<noteq> None \<longrightarrow>
            (\<exists>l' d' v'. ?C = Inr l' \<and>
               accounts l' ?addr = Some d' \<and>
               map_of (storage d') slot = Some v' \<and> after v' = val \<and>
               (\<forall>k. k \<noteq> slot \<longrightarrow> map_of (storage d') k = map_of (storage (getAcc l ?addr)) k) \<and>
               (\<forall>a. a \<noteq> ?addr \<longrightarrow> accounts l' a = accounts l a))) \<and>
         (accounts l ?addr = None \<and> env l = None \<longrightarrow> ?C = Inl NilPointerDereference)"
    if len: "2 \<le> length ?xs"
  proof -
    from len have ne: "?xs \<noteq> []" by auto
    with len have ne2: "butlast ?xs \<noteq> []" by (cases ?xs rule: rev_cases) auto
    have xs: "?xs = butlast (butlast ?xs) @ [last (butlast ?xs), last ?xs]"
      using ne ne2 by (metis append_butlast_last_id append_Cons append_Nil append_assoc)
    have i1: "?xs ! (length ?xs - Suc 0) = last ?xs" using ne by (simp add: last_conv_nth)
    have i2: "?xs ! (length ?xs - 2) = last (butlast ?xs)"
      using ne2 len by (simp add: last_conv_nth nth_butlast numeral_2_eq_2)
    have c: "?C = recordStorage l ?addr (last ?xs) (last (butlast ?xs))"
      using len by (simp add: CaptureState_def Let_def i1 i2)
    have r: "accounts l ?addr \<noteq> None \<or> env l \<noteq> None \<longrightarrow>
            (\<exists>l' d' v'. ?C = Inr l' \<and>
               accounts l' ?addr = Some d' \<and>
               map_of (storage d') (last ?xs) = Some v' \<and> after v' = last (butlast ?xs) \<and>
               (\<forall>k. k \<noteq> last ?xs \<longrightarrow>
                  map_of (storage d') k = map_of (storage (getAcc l ?addr)) k) \<and>
               (\<forall>a. a \<noteq> ?addr \<longrightarrow> accounts l' a = accounts l a))"
      unfolding c by (intro impI) (rule recordStorage_records)
    have p: "accounts l ?addr = None \<and> env l = None \<longrightarrow> ?C = Inl NilPointerDereference"
      unfolding c by (simp add: recordStorage_panics)
    from xs c r p show ?thesis by blast
  qed
  have one: "?C = Inr l" if "length ?xs < 2"
    using that by (simp add: CaptureState_def Let_def)
  have b: "length ?xs - 1 < length ?xs" "length ?xs - 2 < length ?xs" if "2 \<le> length ?xs"
    using that by simp_all
  from one two b show ?thesis by (intro conjI impI) assumption+
qed

theorem CaptureState_SSTORE_operands_witness:
  "length (Data (Stack (ex_scope\<lparr>Stack := \<lparr>Data = [9]\<rparr>\<rparr>))) < 2 \<and>
   CaptureState ex_stored 0 SSTORE 0 0 (ex_scope\<lparr>Stack := \<lparr>Data = [9]\<rparr>\<rparr>) None 1 None = Inr ex_stored \<and>
   2 \<le> length (Data (Stack ex_scope)) \<and> Data (Stack ex_scope) = [] @ [9, 1] \<and>
   Address (Contract ex_scope) = 2 \<and>
   CaptureState ex_tracer 0 SSTORE 0 0 ex_scope None 1 None = recordStorage ex_tracer 2 1 9 \<and>
   env ex_tracer \<noteq> None \<and>
   (\<exists>l' d' v'. CaptureState ex_tracer 0 SSTORE 0 0 ex_scope None 1 None = Inr l' \<and>
      accounts l' 2 = Some d' \<and> map_of (storage d') 1 = Some v' \<and> after v' = 9 \<and>
      map_of (storage d') 2 = None \<and> accounts l' 1 = None) \<and>
   accounts ex_create 2 = None \<and> env ex_create = None \<and>
   CaptureState ex_create 0 SSTORE 0 0 ex_scope None 1 None = Inl NilPointerDereference"
proof -
  have h1: "length (Data (Stack (ex_scope\<lparr>Stack := \<lparr>Data = [9]\<rparr>\<rparr>))) < 2"
    and h2: "2 \<le> length (Data (Stack ex_scope))"
    and d: "Data (Stack ex_scope) = [] @ [9, 1]"
    and a: "Address (Contract ex_scope) = 2"
    by (simp_all add: ex_scope_def)
  have e: "env ex_tracer \<noteq> None" by (simp add: ex_tracer_def ex_env_def)
  have n: "accounts ex_tracer 1 = None" "map_of (storage (getAcc ex_tracer 2)) 2 = None"
    by (simp_all add: ex_tracer_def getAcc_def zeroAccDiff_def)
  have c: "accounts ex_create 2 = None" "env ex_create = None" by (simp_all add: ex_create_def)
  note T1 = CaptureState_SSTORE_operands
    [where scope = "ex_scope\<lparr>Stack := \<lparr>Data = [9]\<rparr>\<rparr>" and l = ex_stored and pc = 0 and gas = 0
       and cost = 0 and rData = None and depth = 1 and er = None, THEN conjunct1, THEN mp, OF h1]
  from CaptureState_SSTORE_operands
    [where scope = ex_scope and l = ex_tracer and pc = 0 and gas = 0
       and cost = 0 and rData = None and depth = 1 and er = None, THEN conjunct2, THEN mp, OF h2]
  obtain below val slot where s: "Data (Stack ex_scope) = below @ [val, slot]"
    and T2: "CaptureState ex_tracer 0 SSTORE 0 0 ex_scope None 1 None =
               recordStorage ex_tracer (Address (Contract ex_scope)) slot val"
    and T3: "accounts ex_tracer (Address (Contract ex_scope)) \<noteq> None \<or> env ex_tracer \<noteq> None \<longrightarrow>
       (\<exists>l' d' v'. CaptureState ex_tracer 0 SSTORE 0 0 ex_scope None 1 None = Inr l' \<and>
          accounts l' (Address (Contract ex_scope)) = Some d' \<and>
          map_of (storage d') slot = Some v' \<and> after v' = val \<and>
          (\<forall>k. k \<noteq> slot \<longrightarrow>
             map_of (storage d') k = map_of (storage (getAcc ex_tracer (Address (Contract ex_scope)))) k) \<and>
          (\<forall>a. a \<noteq> Address (Contract ex_scope) \<longrightarrow> accounts l' a = accounts ex_tracer a))"
    by blast
  from s d have vs: "val = 9" "slot = 1" by simp_all
  from T2 vs a have t2: "CaptureState ex_tracer 0 SSTORE 0 0 ex_scope None 1 None =
      recordStorage ex_tracer 2 1 9" by simp
  from T3 e obtain l' d' v' where
    r: "CaptureState ex_tracer 0 SSTORE 0 0 ex_scope None 1 None = Inr l'"
      "accounts l' (Address (Contract ex_scope)) = Some d'"
      "map_of (storage d') slot = Some v'" "after v' = val"
    and o: "\<forall>k. k \<noteq> slot \<longrightarrow>
             map_of (storage d') k = map_of (storage (getAcc ex_tracer (Address (Contract ex_scope)))) k"
      "\<forall>a. a \<noteq> Address (Contract ex_scope) \<longrightarrow> accounts l' a = accounts ex_tracer a"
    by blast
  from o vs a n have o': "map_of (storage d') 2 = None" "accounts l' 1 = None" by simp_all
  from r vs a o' have t3: "\<exists>l' d' v'. CaptureState ex_tracer 0 SSTORE 0 0 ex_scope None 1 None = Inr l' \<and>
      accounts l' 2 = Some d' \<and> map_of (storage d') 1 = Some v' \<and> after v' = 9 \<and>
      map_of (storage d') 2 = None \<and> accounts l' 1 = None" by auto
  from CaptureState_SSTORE_operands
    [where scope = ex_scope and l = ex_create and pc = 0 and gas = 0
       and cost = 0 and rData = None and depth = 1 and er = None, THEN conjunct2, THEN mp, OF h2]
  have "accounts ex_create (Address (Contract ex_scope)) = None \<and> env ex_create = None \<longrightarrow>
       CaptureState ex_create 0 SSTORE 0 0 ex_scope None 1 None = Inl NilPointerDereference"
    by blast
  with c a have t4: "CaptureState ex_create 0 SSTORE 0 0 ex_scope None 1 None = Inl NilPointerDereference"
    by simp
  from h1 T1 h2 d a t2 e t3 c t4 show ?thesis by (intro conjI)
qed

section \<open>Rendering\<close>

lemma hexdigit_inj:
  assumes "i < 16" and "j < 16" and "hexdigit i = hexdigit j"
  shows "i = j"
proof -
  have d: "distinct ''0123456789abcdef''" by simp
  have l: "length ''0123456789abcdef'' = 16" by simp
  from assms d l show ?thesis unfolding hexdigit_def
    by (metis nth_eq_iff_index_eq)
qed

lemma length_hex_fixed [simp]: "length (hex_fixed k n) = k"
  by (induction k arbitrary: n) simp_all

lemma hex_fixed_inj:
  "n < 16 ^ k \<Longrightarrow> m < 16 ^ k \<Longrightarrow> hex_fixed k n = hex_fixed k m \<Longrightarrow> n = m"
proof (induction k arbitrary: n m)
  case 0
  then show ?case by simp
next
  case (Suc k)
  from Suc.prems(3) have e: "hex_fixed k (n div 16) = hex_fixed k (m div 16)"
    and d: "hexdigit (n mod 16) = hexdigit (m mod 16)" by simp_all
  from Suc.prems(1,2) have "n div 16 < 16 ^ k" "m div 16 < 16 ^ k"
    by (simp_all add: less_mult_imp_div_less mult.commute)
  with Suc.IH e have q: "n div 16 = m div 16" by blast
  from d have r: "n mod 16 = m mod 16" by (intro hexdigit_inj) simp_all
  from q r show ?case by (metis div_mult_mod_eq)
qed

text \<open>The rendering of a hash determines the hash.\<close>

lemma Hash_Hex_inj: "Hash_Hex h = Hash_Hex h' \<longleftrightarrow> h = h'"
proof
  assume "Hash_Hex h = Hash_Hex h'"
  then have e: "hex_fixed 64 (unat h) = hex_fixed 64 (unat h')" by (simp add: Hash_Hex_def)
  have "unat h < 2 ^ 256" "unat h' < 2 ^ 256"
    using unsigned_less [of h] unsigned_less [of h'] by simp_all
  then have "unat h < 16 ^ 64" "unat h' < 16 ^ 64" by simp_all
  from hex_fixed_inj [OF this e] have "unat h = unat h'" .
  then show "h = h'" by (simp add: word_unat_eq_iff)
qed simp

lemma hex_nat_small: "n < 16 \<Longrightarrow> hex_nat n = [hexdigit n]"
  by (simp add: hex_nat.simps)

lemma hex_nat_big: "16 \<le> n \<Longrightarrow> hex_nat n = hex_nat (n div 16) @ [hexdigit (n mod 16)]"
  by (subst hex_nat.simps) simp

lemmas render_simps = Sprintf_0x_string_def Sprintf_0x_uint64_def Text16_def EncodeToString_def
  hex_nat_small hex_nat_big hexdigit_def

section \<open>The report\<close>

lemma fold_reportStorage_fields:
  "Balance (fold (\<lambda>kv result. reportStorage result kv) st r0) = Balance r0 \<and>
   Nonce (fold (\<lambda>kv result. reportStorage result kv) st r0) = Nonce r0 \<and>
   Code (fold (\<lambda>kv result. reportStorage result kv) st r0) = Code r0"
  by (induction st arbitrary: r0) (simp_all add: reportStorage_def Let_def)

lemma fold_reportStorage_cong:
  "Storage r0 = Storage r1 \<Longrightarrow>
   Storage (fold (\<lambda>kv result. reportStorage result kv) st r0) =
   Storage (fold (\<lambda>kv result. reportStorage result kv) st r1)"
proof (induction st arbitrary: r0 r1)
  case Nil
  then show ?case by simp
next
  case (Cons x xs)
  from Cons.prems have "Storage (reportStorage r0 x) = Storage (reportStorage r1 x)"
    by (simp add: reportStorage_def Let_def)
  from Cons.IH [OF this] show ?case by simp
qed

text \<open>The loop over a storage map, at the rendering of a key: the pair of the key when
  its two hashes differ, and what the report held before otherwise.\<close>

lemma fold_reportStorage_lookup:
  assumes "distinct (map fst st)"
  shows "Storage (fold (\<lambda>kv result. reportStorage result kv) st r0) (Hash_Hex k) =
           (case map_of st k of
              None \<Rightarrow> Storage r0 (Hash_Hex k)
            | Some v \<Rightarrow>
                if before v \<noteq> after v
                then Some \<lparr>From = Hash_Hex (before v), To = Hash_Hex (after v)\<rparr>
                else Storage r0 (Hash_Hex k))"
  using assms
proof (induction st arbitrary: r0)
  case Nil
  then show ?case by simp
next
  case (Cons x xs)
  from Cons.prems have dist: "distinct (map fst xs)" and notin: "fst x \<notin> fst ` set xs"
    by simp_all
  let ?f = "\<lambda>kv result. reportStorage result kv"
  have step: "fold ?f (x # xs) r0 = fold ?f xs (reportStorage r0 x)" by simp
  note IH = Cons.IH [OF dist, of "reportStorage r0 x"]
  show ?case
  proof (cases "k = fst x")
    case True
    with notin have none: "map_of xs k = None" by (simp add: map_of_eq_None_iff)
    have m: "map_of (x # xs) k = Some (snd x)" using True by (cases x) simp
    have rs: "Storage (reportStorage r0 x) (Hash_Hex k) =
                (if before (snd x) \<noteq> after (snd x)
                 then Some \<lparr>From = Hash_Hex (before (snd x)), To = Hash_Hex (after (snd x))\<rparr>
                 else Storage r0 (Hash_Hex k))"
      by (simp add: reportStorage_def Let_def True Hash_Hex_inj)
    show ?thesis unfolding step IH none m rs by simp
  next
    case False
    have m: "map_of (x # xs) k = map_of xs k" using False by (cases x) simp
    have rs: "Storage (reportStorage r0 x) (Hash_Hex k) = Storage r0 (Hash_Hex k)"
      using False by (simp add: reportStorage_def Let_def Hash_Hex_inj)
    show ?thesis unfolding step IH m rs by simp
  qed
qed

text \<open>The report of an entry when the tracer has its environment: the three scalar fields
  and then the loop over the storage map.\<close>

lemma report_with_env:
  assumes "env l = Some e"
  shows "report l addr a =
     Inr (fold (\<lambda>kv result. reportStorage result kv) (storage a)
       \<lparr>Balance =
          (if balanceDelta a \<noteq> 0
           then AnyFromTo
             \<lparr>From = Sprintf_0x_string (Text16 (GetBalance (StateDB e) addr - balanceDelta a)),
              To = Sprintf_0x_string (Text16 (GetBalance (StateDB e) addr))\<rparr>
           else AnyString ''=''),
        Nonce =
          (if nonceDelta a \<noteq> 0
           then AnyFromTo
             \<lparr>From = Sprintf_0x_uint64 (GetNonce (StateDB e) addr - nonceDelta a),
              To = Sprintf_0x_uint64 (GetNonce (StateDB e) addr)\<rparr>
           else AnyString ''=''),
        Code =
          (let bef = (case before (code a) of None \<Rightarrow> [] | Some bs \<Rightarrow> EncodeToString bs);
               aft = (case after (code a) of None \<Rightarrow> [] | Some bs \<Rightarrow> EncodeToString bs)
           in if (before (code a) \<noteq> None \<or> after (code a) \<noteq> None) \<and> bef \<noteq> aft
              then AnyFromTo \<lparr>From = bef, To = aft\<rparr> else AnyString ''=''),
        Storage = Map.empty\<rparr>)"
  using assms by (simp add: report_def andThen_def Let_def notNil_def)

lemma report_Storage:
  assumes "report l addr a = Inr r"
  shows "Storage r =
     Storage (fold (\<lambda>kv result. reportStorage result kv) (storage a)
        \<lparr>Balance = AnyString ''='', Nonce = AnyString ''='', Code = AnyString ''='',
         Storage = Map.empty\<rparr>)"
  using assms
  by (auto simp: report_def andThen_def Let_def notNil_def split: if_splits option.splits
      intro!: fold_reportStorage_cong)

text \<open>C6. For an entry whose storage map has one binding for each key (as a Go map has)
  and every key \<open>k\<close> bound in it to the pair \<open>v\<close>: the report's storage mapping has an
  entry at the rendering of \<open>k\<close> if and only if \<open>before v\<close> and \<open>after v\<close> differ, and
  then the entry is the pair of their renderings. A key written with equal \<^verbatim>\<open>before\<close> and
  \<^verbatim>\<open>after\<close> is left out.\<close>

theorem report_storage_changed_keys_only:
  assumes "distinct (map fst (storage a))"
    and "report l addr a = Inr r"
    and "map_of (storage a) k = Some v"
  shows "(Storage r (Hash_Hex k) \<noteq> None \<longleftrightarrow> before v \<noteq> after v) \<and>
         (before v \<noteq> after v \<longrightarrow>
            Storage r (Hash_Hex k) = Some \<lparr>From = Hash_Hex (before v), To = Hash_Hex (after v)\<rparr>) \<and>
         (before v = after v \<longrightarrow> Storage r (Hash_Hex k) = None)"
  using fold_reportStorage_lookup [OF assms(1), of _ k] assms(3)
  by (simp add: report_Storage [OF assms(2)])

theorem report_storage_changed_keys_only_witness:
  "distinct (map fst [(1, \<lparr>before = 5, after = 9\<rparr>), (2 :: hash, \<lparr>before = 7, after = 7 :: hash\<rparr>)]) \<and>
   (\<exists>r. report ex_tracer 2
          (emptyAccDiff\<lparr>storage := [(1, \<lparr>before = 5, after = 9\<rparr>), (2, \<lparr>before = 7, after = 7\<rparr>)]\<rparr>)
          = Inr r \<and>
        Storage r (Hash_Hex 1) = Some \<lparr>From = Hash_Hex 5, To = Hash_Hex 9\<rparr> \<and>
        Storage r (Hash_Hex 2) = None)"
proof -
  let ?a = "emptyAccDiff\<lparr>storage := [(1, \<lparr>before = 5, after = 9\<rparr>), (2, \<lparr>before = 7, after = 7\<rparr>)]\<rparr>"
  have d: "distinct (map fst (storage ?a))" by simp
  have e: "env ex_tracer = Some \<lparr>StateDB = ex_db\<rparr>" by (simp add: ex_tracer_def ex_env_def)
  from report_with_env [OF e, of 2 ?a] obtain r where r: "report ex_tracer 2 ?a = Inr r" by blast
  have m1: "map_of (storage ?a) 1 = Some \<lparr>before = 5, after = 9\<rparr>"
    and m2: "map_of (storage ?a) 2 = Some \<lparr>before = 7, after = 7\<rparr>" by simp_all
  from report_storage_changed_keys_only [OF d r m1]
  have s1: "Storage r (Hash_Hex 1) = Some \<lparr>From = Hash_Hex 5, To = Hash_Hex 9\<rparr>" by simp
  from report_storage_changed_keys_only [OF d r m2]
  have s2: "Storage r (Hash_Hex 2) = None" by simp
  from d r s1 s2 show ?thesis by auto
qed

lemma hexval_hexdigit: "d < 16 \<Longrightarrow> hexval (hexdigit d) = Some d"
  unfolding hexval_def hexdigit_def
  by (subst map_of_zip_nth) simp_all

lemma hex_read_append:
  "hex_read n (xs @ ys) = (case hex_read n xs of None \<Rightarrow> None | Some k \<Rightarrow> hex_read k ys)"
  by (induction xs arbitrary: n) (simp_all split: option.splits)

lemma hex_read_hex_nat: "hex_read 0 (hex_nat m) = Some m"
proof (induction m rule: hex_nat.induct)
  case (1 n)
  show ?case
  proof (cases "n < 16")
    case True
    then show ?thesis by (simp add: hex_nat_small hexval_hexdigit)
  next
    case False
    with 1 have IH: "hex_read 0 (hex_nat (n div 16)) = Some (n div 16)" by simp
    from False have "hex_nat n = hex_nat (n div 16) @ [hexdigit (n mod 16)]"
      by (simp add: hex_nat_big)
    then show ?thesis by (simp add: hex_read_append IH hexval_hexdigit)
  qed
qed

lemma hex_nat_not_Nil: "hex_nat n \<noteq> []"
  by (cases "n < 16") (simp_all add: hex_nat_small hex_nat_big)

text \<open>The nonce fields read back as the numbers they render.\<close>

lemma read_0x_Sprintf_0x_uint64: "read_0x (Sprintf_0x_uint64 u) = Some (unat u)"
  by (simp add: read_0x_def Sprintf_0x_uint64_def hex_nat_not_Nil hex_read_hex_nat)

text \<open>C10. The \<^verbatim>\<open>from\<close> nonce of the report is the current nonce minus the nonce delta
  in \<^verbatim>\<open>uint64\<close>: the report returns it rendered, whatever the two numbers are, and its
  value is the difference modulo \<open>2^64\<close>, of the current nonce and the delta read as
  unsigned or as the signed \<^verbatim>\<open>int\<close> it is; when the delta exceeds the current nonce the
  value is \<open>2^64 + current - delta\<close>, not an error and not zero.\<close>

theorem report_nonce_from_wraps:
  assumes "env l = Some e" and "nonceDelta a \<noteq> 0"
  shows "\<exists>r. report l addr a = Inr r \<and>
           Nonce r = AnyFromTo
             \<lparr>From = Sprintf_0x_uint64 (GetNonce (StateDB e) addr - nonceDelta a),
              To = Sprintf_0x_uint64 (GetNonce (StateDB e) addr)\<rparr> \<and>
           read_0x (Sprintf_0x_uint64 (GetNonce (StateDB e) addr - nonceDelta a)) =
             Some (unat (GetNonce (StateDB e) addr - nonceDelta a)) \<and>
           uint (GetNonce (StateDB e) addr - nonceDelta a) =
             (uint (GetNonce (StateDB e) addr) - uint (nonceDelta a)) mod 2 ^ 64 \<and>
           uint (GetNonce (StateDB e) addr - nonceDelta a) =
             (uint (GetNonce (StateDB e) addr) - sint (nonceDelta a)) mod 2 ^ 64 \<and>
           (uint (GetNonce (StateDB e) addr) < uint (nonceDelta a) \<longrightarrow>
              uint (GetNonce (StateDB e) addr - nonceDelta a) =
                2 ^ 64 + uint (GetNonce (StateDB e) addr) - uint (nonceDelta a))"
proof -
  let ?c = "GetNonce (StateDB e) addr" and ?d = "nonceDelta a"
  have u: "uint (?c - ?d) = (uint ?c - uint ?d) mod 2 ^ 64"
    by (simp add: uint_word_ariths)
  have "uint (word_of_int (sint ?d) :: uint64) = take_bit 64 (sint ?d)"
    by (simp only: uint_word_of_int_eq) simp
  then have m: "sint ?d mod 2 ^ 64 = uint ?d" by (simp add: take_bit_eq_mod)
  have "(uint ?c - sint ?d) mod 2 ^ 64 = (uint ?c - sint ?d mod 2 ^ 64) mod 2 ^ 64"
    by (simp only: mod_diff_right_eq)
  with u m have s: "uint (?c - ?d) = (uint ?c - sint ?d) mod 2 ^ 64" by simp
  have w: "uint (?c - ?d) = 2 ^ 64 + uint ?c - uint ?d" if "uint ?c < uint ?d"
  proof -
    have b: "uint ?d < 2 ^ 64" using uint_bounded [of ?d] by simp
    have c0: "0 \<le> uint ?c" by simp
    from that b c0 have "0 \<le> 2 ^ 64 + uint ?c - uint ?d" "2 ^ 64 + uint ?c - uint ?d < 2 ^ 64"
      by linarith+
    then have "(2 ^ 64 + uint ?c - uint ?d) mod 2 ^ 64 = 2 ^ 64 + uint ?c - uint ?d"
      by (rule mod_pos_pos_trivial)
    moreover have "(uint ?c - uint ?d) mod 2 ^ 64 = (2 ^ 64 + uint ?c - uint ?d) mod 2 ^ 64"
      by (metis add_diff_eq mod_add_self1)
    ultimately show ?thesis using u by simp
  qed
  from report_with_env [OF assms(1), of addr a] assms(2)
  have "\<exists>r. report l addr a = Inr r \<and>
           Nonce r = AnyFromTo \<lparr>From = Sprintf_0x_uint64 (?c - ?d), To = Sprintf_0x_uint64 ?c\<rparr>"
    by (simp add: fold_reportStorage_fields)
  with u s w read_0x_Sprintf_0x_uint64 [of "?c - ?d"] show ?thesis by blast
qed

theorem report_nonce_from_wraps_witness:
  "env ex_tracer = Some \<lparr>StateDB = ex_db\<rparr> \<and> nonceDelta (emptyAccDiff\<lparr>nonceDelta := 8\<rparr>) \<noteq> 0 \<and>
   GetNonce ex_db 1 = 7 \<and>
   (\<exists>r. report ex_tracer 1 (emptyAccDiff\<lparr>nonceDelta := 8\<rparr>) = Inr r \<and>
      Nonce r = AnyFromTo \<lparr>From = ''0xffffffffffffffff'', To = ''0x7''\<rparr>) \<and>
   read_0x ''0xffffffffffffffff'' = Some (2 ^ 64 - 1) \<and>
   uint (7 :: uint64) < uint (8 :: uint64) \<and> uint (7 - 8 :: uint64) = 2 ^ 64 + 7 - 8"
proof -
  have e: "env ex_tracer = Some \<lparr>StateDB = ex_db\<rparr>" by (simp add: ex_tracer_def ex_env_def)
  have n: "nonceDelta (emptyAccDiff\<lparr>nonceDelta := 8\<rparr>) \<noteq> 0" by simp
  have g: "GetNonce ex_db 1 = 7" by (simp add: ex_db_def)
  have f: "Sprintf_0x_uint64 (7 - 8) = ''0xffffffffffffffff''"
    by (simp add: render_simps unsigned_minus_1_eq_mask mask_eq_exp_minus_1)
  have t: "Sprintf_0x_uint64 7 = ''0x7''" by (simp add: render_simps)
  have v: "unat (7 - 8 :: uint64) = 2 ^ 64 - 1"
    by (simp add: unsigned_minus_1_eq_mask mask_eq_exp_minus_1)
  have c: "uint (7 :: uint64) < uint (8 :: uint64)" by simp
  from report_nonce_from_wraps [OF e n, of 1] g c
  have u: "uint (7 - 8 :: uint64) = 2 ^ 64 + 7 - 8" by auto
  from report_nonce_from_wraps [OF e n, of 1] show ?thesis
    using e g f t v c u by auto
qed

lemma hexdigit_lowercase: "n < 16 \<Longrightarrow> hexdigit n \<in> set ''0123456789abcdef''"
  unfolding hexdigit_def by (rule nth_mem) simp

text \<open>The code fields are lowercase hexadecimal digits, two for each byte, without a
  prefix.\<close>

lemma EncodeToString_lowercase:
  "set (EncodeToString bs) \<subseteq> set ''0123456789abcdef'' \<and> length (EncodeToString bs) = 2 * length bs"
proof (induction bs)
  case Nil
  then show ?case by (simp add: EncodeToString_def)
next
  case (Cons b bs)
  have "unat b < 2 ^ LENGTH(8)" by (rule unsigned_less)
  then have "unat b div 16 < 16" by simp
  from hexdigit_lowercase [OF this] hexdigit_lowercase [of "unat b mod 16"] Cons
  show ?case by (simp add: EncodeToString_def)
qed

text \<open>C7. The nonce fields are \<^verbatim>\<open>0x\<close> and the hexadecimal digits of the number, and the
  code fields lowercase hexadecimal without a prefix (the lemmas above). The balance
  fields are not: \<^verbatim>\<open>Text(16)\<close> has already made the digits, and \<^verbatim>\<open>%x\<close> then prints every
  character of that string as two more digits. For an account with balance 100 and
  balance delta 30 the numbers are 70 and 100, in hexadecimal \<^verbatim>\<open>46\<close> and \<^verbatim>\<open>64\<close>, and the
  report holds \<^verbatim>\<open>0x3436\<close> and \<^verbatim>\<open>0x3634\<close>.\<close>

theorem report_balance_rendered_twice:
  "report ex_tracer 1 (emptyAccDiff\<lparr>balanceDelta := 30\<rparr>) =
     Inr \<lparr>Balance = AnyFromTo \<lparr>From = ''0x3436'', To = ''0x3634''\<rparr>,
          Nonce = AnyString ''='', Code = AnyString ''='', Storage = Map.empty\<rparr> \<and>
   GetBalance ex_db 1 = 100 \<and>
   Text16 (100 - 30) = ''46'' \<and> Text16 100 = ''64'' \<and>
   ''0x3436'' \<noteq> ''0x'' @ Text16 (100 - 30) \<and> ''0x3634'' \<noteq> ''0x'' @ Text16 100"
proof -
  have e: "env ex_tracer = Some \<lparr>StateDB = ex_db\<rparr>" by (simp add: ex_tracer_def ex_env_def)
  have t: "Text16 (100 - 30) = ''46''" "Text16 100 = ''64''" by (simp_all add: render_simps)
  have s: "Sprintf_0x_string ''46'' = ''0x3436''" "Sprintf_0x_string ''64'' = ''0x3634''"
    by (simp_all add: render_simps)
  have g: "GetBalance ex_db 1 = 100" by (simp add: ex_db_def)
  have "report ex_tracer 1 (emptyAccDiff\<lparr>balanceDelta := 30\<rparr>) =
     Inr \<lparr>Balance = AnyFromTo \<lparr>From = ''0x3436'', To = ''0x3634''\<rparr>,
          Nonce = AnyString ''='', Code = AnyString ''='', Storage = Map.empty\<rparr>"
    using t s by (simp add: report_with_env [OF e] emptyAccDiff_def g)
  with g t show ?thesis by simp
qed

section \<open>Balance deltas\<close>

lemma getAcc_recordBalanceChange:
  "getAcc (recordBalanceChange l addr x) a =
     (if a = addr then (getAcc l addr)\<lparr>balanceDelta := balanceDelta (getAcc l addr) + x\<rparr>
      else getAcc l a)"
  by (cases "accounts l addr")
     (simp_all add: recordBalanceChange_def tryInitAccDiff_def getAcc_def emptyAccDiff_def
       zeroAccDiff_def)

text \<open>The balance delta of an account after a sequence of recorded balance changes is its
  delta before plus the sum of the amounts recorded for it.\<close>

lemma balanceDelta_is_sum:
  "balanceDelta (getAcc (fold (\<lambda>p l. recordBalanceChange l (fst p) (snd p)) xs l) addr) =
     balanceDelta (getAcc l addr) + sum_list (map snd (filter (\<lambda>p. fst p = addr) xs))"
  by (induction xs arbitrary: l) (simp_all add: getAcc_recordBalanceChange)

text \<open>The two numbers the report formats are the current balance minus the delta and
  the current balance; their difference is the delta.\<close>

lemma report_balance_numbers:
  assumes "env l = Some e" and "balanceDelta a \<noteq> 0"
  shows "\<exists>r. report l addr a = Inr r \<and>
           Balance r = AnyFromTo
             \<lparr>From = Sprintf_0x_string (Text16 (GetBalance (StateDB e) addr - balanceDelta a)),
              To = Sprintf_0x_string (Text16 (GetBalance (StateDB e) addr))\<rparr> \<and>
           GetBalance (StateDB e) addr - (GetBalance (StateDB e) addr - balanceDelta a) =
             balanceDelta a"
  using report_with_env [OF assms(1), of addr a] assms(2)
  by (simp add: fold_reportStorage_fields)

text \<open>C5. The claim asks that the reported \<^verbatim>\<open>to\<close> minus the reported \<^verbatim>\<open>from\<close> be the balance
  delta. The numbers handed to the formatter have that difference, but the report holds
  their doubly encoded renderings: a sender with balance 100 whose recorded changes are
  \<open>-30\<close> (a transfer) and \<open>-21\<close> (gas) has delta \<open>-51\<close>, and the report's balance is from
  \<^verbatim>\<open>0x3937\<close> to \<^verbatim>\<open>0x3634\<close>, which denote 14647 and 13876: their difference is \<open>-771\<close>.\<close>

theorem report_balance_difference_is_not_delta:
  "balanceDelta (getAcc (fold (\<lambda>p l. recordBalanceChange l (fst p) (snd p))
       [(1, - 30), (2, 30), (1, - 21)] ex_tracer) 1) = - 51 \<and>
   GetBalance ex_db 1 = 100 \<and>
   report ex_tracer 1 (emptyAccDiff\<lparr>balanceDelta := - 51\<rparr>) =
     Inr \<lparr>Balance = AnyFromTo \<lparr>From = ''0x3937'', To = ''0x3634''\<rparr>,
          Nonce = AnyString ''='', Code = AnyString ''='', Storage = Map.empty\<rparr> \<and>
   read_0x ''0x3937'' = Some 14647 \<and> read_0x ''0x3634'' = Some 13876 \<and>
   (13876 :: int) - 14647 \<noteq> - 51"
proof -
  have e: "env ex_tracer = Some \<lparr>StateDB = ex_db\<rparr>" by (simp add: ex_tracer_def ex_env_def)
  have g: "GetBalance ex_db 1 = 100" by (simp add: ex_db_def)
  have d: "balanceDelta (getAcc (fold (\<lambda>p l. recordBalanceChange l (fst p) (snd p))
       [(1, - 30), (2, 30), (1, - 21)] ex_tracer) 1) = - 51"
    by (subst balanceDelta_is_sum) (simp add: getAcc_def ex_tracer_def zeroAccDiff_def)
  have t: "Text16 (100 - (- 51)) = ''97''" "Text16 100 = ''64''" by (simp_all add: render_simps)
  have s: "Sprintf_0x_string ''97'' = ''0x3937''" "Sprintf_0x_string ''64'' = ''0x3634''"
    by (simp_all add: render_simps)
  have r: "report ex_tracer 1 (emptyAccDiff\<lparr>balanceDelta := - 51\<rparr>) =
     Inr \<lparr>Balance = AnyFromTo \<lparr>From = ''0x3937'', To = ''0x3634''\<rparr>,
          Nonce = AnyString ''='', Code = AnyString ''='', Storage = Map.empty\<rparr>"
    using t s by (simp add: report_with_env [OF e] emptyAccDiff_def g)
  have v: "read_0x ''0x3937'' = Some 14647" "read_0x ''0x3634'' = Some 13876"
    by (simp_all add: read_0x_def hexval_def upt_conv_Cons)
  from d g r v show ?thesis by simp
qed

section \<open>Nonce and gas at the end of the transaction\<close>

lemma getAcc_recordNonceIncrese:
  "getAcc (recordNonceIncrese l addr) a =
     (if a = addr then (getAcc l addr)\<lparr>nonceDelta := nonceDelta (getAcc l addr) + 1\<rparr>
      else getAcc l a)"
  by (cases "accounts l addr")
     (simp_all add: recordNonceIncrese_def tryInitAccDiff_def getAcc_def emptyAccDiff_def
       zeroAccDiff_def)

text \<open>What \<^verbatim>\<open>CaptureTxEnd\<close> returns, given the top-level frame the call tracer holds.\<close>

lemma CaptureTxEnd_frame:
  assumes "callstack (tracer_CaptureTxEnd M restGas (tracer l)) = cf # rest"
  shows "CaptureTxEnd M l restGas =
     Inr (let l1 = recordBalanceChange (l\<lparr>tracer := tracer_CaptureTxEnd M restGas (tracer l)\<rparr>)
                     (callFrame.From cf) (big_NewInt (- GasUsed cf))
          in if Type cf \<noteq> CREATE then recordNonceIncrese l1 (callFrame.From cf) else l1)"
  using assms by (simp add: CaptureTxEnd_def Let_def)

lemma getAcc_tracer_update [simp]: "getAcc (l\<lparr>tracer := t\<rparr>) a = getAcc l a"
  by (simp add: getAcc_def)

lemma getAcc_env_update [simp]: "getAcc (l\<lparr>env := e\<rparr>) a = getAcc l a"
  by (simp add: getAcc_def)

text \<open>The nonce delta of an account is changed by \<^verbatim>\<open>recordNonceIncrese\<close> only: the other
  operations of the diff store and the callbacks that do not call it leave every nonce
  delta as it is.\<close>

lemma nonce_recordBalanceChange:
  "nonceDelta (getAcc (recordBalanceChange l addr x) a) = nonceDelta (getAcc l a)"
  by (simp add: getAcc_recordBalanceChange)

lemma nonce_recordCode:
  "recordCode l addr c = Inr l' \<Longrightarrow> nonceDelta (getAcc l' a) = nonceDelta (getAcc l a)"
  by (cases "accounts l addr"; cases "env l")
     (auto simp: recordCode_def tryInitAccDiff_def getAcc_def emptyAccDiff_def zeroAccDiff_def
        Let_def)

lemma nonce_recordStorage:
  "recordStorage l addr key aft = Inr l' \<Longrightarrow> nonceDelta (getAcc l' a) = nonceDelta (getAcc l a)"
  by (cases "accounts l addr"; cases "env l")
     (auto simp: recordStorage_def tryInitAccDiff_def getAcc_def emptyAccDiff_def zeroAccDiff_def
        Let_def)

lemma nonce_etherTransfer:
  "etherTransfer l cf = Inr l' \<Longrightarrow> nonceDelta (getAcc l' a) = nonceDelta (getAcc l a)"
  by (auto simp: etherTransfer_def nonce_recordBalanceChange split: option.splits)

lemma nonce_withState [simp]: "getAcc (withState db l) a = getAcc l a"
  by (simp add: withState_def)

lemma nonce_CaptureTxStart: "getAcc (CaptureTxStart M l gasLim) a = getAcc l a"
  by (simp add: CaptureTxStart_def)

lemma nonce_CaptureStart:
  "nonceDelta (getAcc (CaptureStart M l e frm dst create inp gas v) a) =
     nonceDelta (getAcc l a) + (if create \<and> frm = a then 1 else 0)"
  by (simp add: CaptureStart_def Let_def getAcc_recordNonceIncrese)

lemma nonce_CaptureEnter:
  "nonceDelta (getAcc (CaptureEnter M l opc frm dst inp gas v) a) =
     nonceDelta (getAcc l a) + (if (opc = CREATE \<or> opc = CREATE2) \<and> frm = a then 1 else 0)"
  by (simp add: CaptureEnter_def Let_def getAcc_recordNonceIncrese)

lemma nonce_CaptureFault:
  "getAcc (CaptureFault M l pc op gas cost scope depth er) a = getAcc l a"
  by (simp add: CaptureFault_def)

lemma nonce_CaptureState:
  "CaptureState l pc op gas cost scope rData depth er = Inr l' \<Longrightarrow>
   nonceDelta (getAcc l' a) = nonceDelta (getAcc l a)"
  by (auto simp: CaptureState_def Let_def split: if_splits dest: nonce_recordStorage)

lemma nonce_CaptureExit:
  assumes "CaptureExit M l outp gasUsed er = Inr l'"
  shows "nonceDelta (getAcc l' a) = nonceDelta (getAcc l a)"
  using assms
  by (auto simp: CaptureExit_def Let_def andThen_def nonce_recordBalanceChange
      split: if_splits option.splits sum.splits
      dest!: nonce_recordCode [where a = a] nonce_etherTransfer [where a = a])

lemma nonce_CaptureEnd:
  assumes "CaptureEnd M l outp gasUsed er = Inr l'"
  shows "nonceDelta (getAcc l' a) = nonceDelta (getAcc l a)"
  using assms
  by (auto simp: CaptureEnd_def Let_def andThen_def
      split: if_splits option.splits sum.splits list.splits
      dest!: nonce_recordCode [where a = a] nonce_etherTransfer [where a = a])

lemma nonce_run_callback:
  "run_callback M l cb = Inr l' \<Longrightarrow>
   nonceDelta (getAcc l' a) = nonceDelta (getAcc l a) + (if entersCreation a cb then 1 else 0)"
proof (cases cb)
  case (OnState pc op gas cost scope rData depth er)
  then show "run_callback M l cb = Inr l' \<Longrightarrow> ?thesis" by (simp add: nonce_CaptureState)
next
  case (OnEnter opc frm dst inp gas val)
  then show "run_callback M l cb = Inr l' \<Longrightarrow> ?thesis" by (auto simp: nonce_CaptureEnter)
next
  case (OnExit outp gasUsed er)
  then show "run_callback M l cb = Inr l' \<Longrightarrow> ?thesis" by (simp add: nonce_CaptureExit)
next
  case (OnFault pc op gas cost scope depth er)
  then show "run_callback M l cb = Inr l' \<Longrightarrow> ?thesis" by (auto simp: nonce_CaptureFault)
qed

lemma nonce_run_callbacks:
  "run_callbacks M l cbs = Inr l' \<Longrightarrow>
   nonceDelta (getAcc l' a) = nonceDelta (getAcc l a) + of_nat (creationsBy a cbs)"
proof (induction cbs arbitrary: l)
  case Nil
  then show ?case by (simp add: creationsBy_def)
next
  case (Cons c cbs)
  obtain db cb where c: "c = (db, cb)" by (cases c)
  with Cons.prems obtain l1 where s: "run_callback M (withState db l) cb = Inr l1"
    and r: "run_callbacks M l1 cbs = Inr l'"
    by (auto split: sum.splits)
  from nonce_run_callback [OF s, of a]
  have "nonceDelta (getAcc l1 a) = nonceDelta (getAcc l a) + (if entersCreation a cb then 1 else 0)"
    by simp
  with Cons.IH [OF r] c show ?case by (simp add: creationsBy_def)
qed

text \<open>C3. The tracer is told by \<^verbatim>\<open>CaptureStart\<close> whether the transaction is a creation
  (\<^verbatim>\<open>create\<close>); the call tracer records it as the type of the top-level frame, \<^verbatim>\<open>CREATE\<close>
  for a creation and \<^verbatim>\<open>CALL\<close> otherwise, and that frame is what \<^verbatim>\<open>CaptureTxEnd\<close> tests.
  For such a frame, \<^verbatim>\<open>CaptureTxEnd\<close> returns and increments the nonce delta of the caller
  (the \<^verbatim>\<open>From\<close> of the frame) by one if and only if the frame is not a creation, of
  either variant; no other nonce delta changes.

  Over the whole transaction (\<^verbatim>\<open>CaptureTxStart\<close>, \<^verbatim>\<open>CaptureStart\<close>, any callbacks of the
  execution that do not panic, \<^verbatim>\<open>CaptureEnd\<close>, \<^verbatim>\<open>CaptureTxEnd\<close>): before \<^verbatim>\<open>CaptureTxEnd\<close> the
  sender's nonce delta has grown by one for a creation and by nothing for a call, and
  after it by one in both cases, each time plus the number of nested creations the
  sender itself has entered. So on a tracer without an entry for the sender, and when
  the sender enters no nested creation, the sender's nonce delta is exactly one; for a
  creation it is one before \<^verbatim>\<open>CaptureTxEnd\<close> already, from the creation itself.\<close>

theorem CaptureTxEnd_nonce_unless_creation:
  "(callstack (tracer_CaptureTxEnd M restGas (tracer l)) = cf # rest \<and>
    (Type cf = CALL \<or> Type cf = CREATE) \<longrightarrow>
      (\<exists>l'. CaptureTxEnd M l restGas = Inr l' \<and>
         nonceDelta (getAcc l' (callFrame.From cf)) =
           nonceDelta (getAcc l (callFrame.From cf)) +
             (if Type cf = CREATE \<or> Type cf = CREATE2 then 0 else 1) \<and>
         (\<forall>a. a \<noteq> callFrame.From cf \<longrightarrow> nonceDelta (getAcc l' a) = nonceDelta (getAcc l a)))) \<and>
   (run_callbacks M (CaptureStart M (CaptureTxStart M l0 gasLim) e sender dst create inp gas v) cbs
      = Inr l1 \<and>
    CaptureEnd M (withState db l1) outp gasUsed er = Inr l2 \<and>
    callstack (tracer_CaptureTxEnd M restGas (tracer l2)) = frame # others \<and>
    callFrame.From frame = sender \<and> Type frame = (if create then CREATE else CALL) \<longrightarrow>
      nonceDelta (getAcc l2 sender) =
        nonceDelta (getAcc l0 sender) + (if create then 1 else 0) + of_nat (creationsBy sender cbs) \<and>
      (\<exists>l3. CaptureTxEnd M l2 restGas = Inr l3 \<and>
         nonceDelta (getAcc l3 sender) =
           nonceDelta (getAcc l0 sender) + 1 + of_nat (creationsBy sender cbs) \<and>
         (accounts l0 sender = None \<and> creationsBy sender cbs = 0 \<longrightarrow>
            nonceDelta (getAcc l3 sender) = 1 \<and>
            nonceDelta (getAcc l2 sender) = (if create then 1 else 0))))"
proof -
  have txend: "\<exists>l'. CaptureTxEnd M l restGas = Inr l' \<and>
         nonceDelta (getAcc l' (callFrame.From cf)) =
           nonceDelta (getAcc l (callFrame.From cf)) +
             (if Type cf = CREATE \<or> Type cf = CREATE2 then 0 else 1) \<and>
         (\<forall>a. a \<noteq> callFrame.From cf \<longrightarrow> nonceDelta (getAcc l' a) = nonceDelta (getAcc l a))"
    if cs: "callstack (tracer_CaptureTxEnd M restGas (tracer l)) = cf # rest"
      and ty: "Type cf = CALL \<or> Type cf = CREATE"
    for l :: StateDiffTracer and cf rest
  proof -
    let ?l' = "let l1 = recordBalanceChange (l\<lparr>tracer := tracer_CaptureTxEnd M restGas (tracer l)\<rparr>)
                     (callFrame.From cf) (big_NewInt (- GasUsed cf))
               in if Type cf \<noteq> CREATE then recordNonceIncrese l1 (callFrame.From cf) else l1"
    have r: "CaptureTxEnd M l restGas = Inr ?l'" by (rule CaptureTxEnd_frame [OF cs])
    have n: "nonceDelta (getAcc ?l' a) =
               nonceDelta (getAcc l a) + (if a = callFrame.From cf \<and> Type cf \<noteq> CREATE then 1 else 0)"
      for a
      by (simp add: Let_def getAcc_recordNonceIncrese getAcc_recordBalanceChange)
    from ty have c: "(Type cf = CREATE \<or> Type cf = CREATE2) = (Type cf = CREATE)" by auto
    have n1: "nonceDelta (getAcc ?l' (callFrame.From cf)) =
           nonceDelta (getAcc l (callFrame.From cf)) +
             (if Type cf = CREATE \<or> Type cf = CREATE2 then 0 else 1)"
      unfolding c using n [of "callFrame.From cf"] by simp
    have n2: "\<forall>a. a \<noteq> callFrame.From cf \<longrightarrow> nonceDelta (getAcc ?l' a) = nonceDelta (getAcc l a)"
      using n by simp
    show ?thesis by (rule exI [of _ ?l']) (intro conjI r n1 n2)
  qed
  have whole: "nonceDelta (getAcc l2 sender) =
        nonceDelta (getAcc l0 sender) + (if create then 1 else 0) + of_nat (creationsBy sender cbs) \<and>
      (\<exists>l3. CaptureTxEnd M l2 restGas = Inr l3 \<and>
         nonceDelta (getAcc l3 sender) =
           nonceDelta (getAcc l0 sender) + 1 + of_nat (creationsBy sender cbs) \<and>
         (accounts l0 sender = None \<and> creationsBy sender cbs = 0 \<longrightarrow>
            nonceDelta (getAcc l3 sender) = 1 \<and>
            nonceDelta (getAcc l2 sender) = (if create then 1 else 0)))"
    if run: "run_callbacks M (CaptureStart M (CaptureTxStart M l0 gasLim) e sender dst create inp gas v)
               cbs = Inr l1"
      and cend: "CaptureEnd M (withState db l1) outp gasUsed er = Inr l2"
      and cs: "callstack (tracer_CaptureTxEnd M restGas (tracer l2)) = frame # others"
      and frm: "callFrame.From frame = sender"
      and ty: "Type frame = (if create then CREATE else CALL)"
  proof -
    have s: "nonceDelta (getAcc (CaptureStart M (CaptureTxStart M l0 gasLim) e sender dst create inp gas v)
                sender) = nonceDelta (getAcc l0 sender) + (if create then 1 else 0)"
      by (simp add: nonce_CaptureStart nonce_CaptureTxStart)
    have n1: "nonceDelta (getAcc l1 sender) =
        nonceDelta (getAcc l0 sender) + (if create then 1 else 0) + of_nat (creationsBy sender cbs)"
      using nonce_run_callbacks [OF run, of sender] s by simp
    have n2: "nonceDelta (getAcc l2 sender) =
        nonceDelta (getAcc l0 sender) + (if create then 1 else 0) + of_nat (creationsBy sender cbs)"
      using nonce_CaptureEnd [OF cend, of sender] n1 by simp
    from ty have ty': "Type frame = CALL \<or> Type frame = CREATE" by (cases create) simp_all
    from txend [OF cs ty'] frm obtain l3 where r: "CaptureTxEnd M l2 restGas = Inr l3"
      and n3: "nonceDelta (getAcc l3 sender) =
           nonceDelta (getAcc l2 sender) + (if Type frame = CREATE \<or> Type frame = CREATE2 then 0 else 1)"
      by blast
    from ty have k: "(Type frame = CREATE \<or> Type frame = CREATE2) = create" by (cases create) simp_all
    have n3': "nonceDelta (getAcc l3 sender) =
           nonceDelta (getAcc l0 sender) + 1 + of_nat (creationsBy sender cbs)"
      using n3 n2 unfolding k by (cases create) simp_all
    have z: "nonceDelta (getAcc l0 sender) = 0" if "accounts l0 sender = None"
      using that by (simp add: getAcc_def zeroAccDiff_def)
    have one: "accounts l0 sender = None \<and> creationsBy sender cbs = 0 \<longrightarrow>
            nonceDelta (getAcc l3 sender) = 1 \<and>
            nonceDelta (getAcc l2 sender) = (if create then 1 else 0)"
      using n3' n2 z by simp
    show ?thesis by (intro conjI n2 exI [of _ l3] r n3' one)
  qed
  show ?thesis
  proof (intro conjI impI)
    assume "callstack (tracer_CaptureTxEnd M restGas (tracer l)) = cf # rest \<and>
            (Type cf = CALL \<or> Type cf = CREATE)"
    then show "\<exists>l'. CaptureTxEnd M l restGas = Inr l' \<and>
         nonceDelta (getAcc l' (callFrame.From cf)) =
           nonceDelta (getAcc l (callFrame.From cf)) +
             (if Type cf = CREATE \<or> Type cf = CREATE2 then 0 else 1) \<and>
         (\<forall>a. a \<noteq> callFrame.From cf \<longrightarrow> nonceDelta (getAcc l' a) = nonceDelta (getAcc l a))"
      using txend [of l cf rest] by (elim conjE) assumption
  next
    assume a: "run_callbacks M (CaptureStart M (CaptureTxStart M l0 gasLim) e sender dst create inp gas v) cbs
      = Inr l1 \<and>
      CaptureEnd M (withState db l1) outp gasUsed er = Inr l2 \<and>
      callstack (tracer_CaptureTxEnd M restGas (tracer l2)) = frame # others \<and>
      callFrame.From frame = sender \<and> Type frame = (if create then CREATE else CALL)"
    from a have a1: "run_callbacks M
        (CaptureStart M (CaptureTxStart M l0 gasLim) e sender dst create inp gas v) cbs = Inr l1"
      by (rule conjunct1)
    from a have a2: "CaptureEnd M (withState db l1) outp gasUsed er = Inr l2"
      by (elim conjE)
    from a have a3: "callstack (tracer_CaptureTxEnd M restGas (tracer l2)) = frame # others"
      by (elim conjE)
    from a have a4: "callFrame.From frame = sender" by (elim conjE)
    from a have a5: "Type frame = (if create then CREATE else CALL)" by (elim conjE)
    from whole [OF a1 a2 a3 a4 a5]
    show "nonceDelta (getAcc l2 sender) =
        nonceDelta (getAcc l0 sender) + (if create then 1 else 0) + of_nat (creationsBy sender cbs)"
      by (rule conjunct1)
    from whole [OF a1 a2 a3 a4 a5]
    show "\<exists>l3. CaptureTxEnd M l2 restGas = Inr l3 \<and>
         nonceDelta (getAcc l3 sender) =
           nonceDelta (getAcc l0 sender) + 1 + of_nat (creationsBy sender cbs) \<and>
         (accounts l0 sender = None \<and> creationsBy sender cbs = 0 \<longrightarrow>
            nonceDelta (getAcc l3 sender) = 1 \<and>
            nonceDelta (getAcc l2 sender) = (if create then 1 else 0))"
      by (rule conjunct2)
  qed
qed

theorem CaptureTxEnd_nonce_unless_creation_witness:
  "callstack (tracer_CaptureTxEnd ex_methods 0 (tracer ex_tracer)) = [ex_frame] \<and>
   Type ex_frame = CALL \<and> callFrame.From ex_frame = 1 \<and>
   (\<exists>l'. CaptureTxEnd ex_methods ex_tracer 0 = Inr l' \<and> nonceDelta (getAcc l' 1) = 1 \<and>
         nonceDelta (getAcc l' 2) = 0) \<and>
   (\<exists>l1 l2 l3.
      run_callbacks ex_methods
        (CaptureStart ex_methods (CaptureTxStart ex_methods ex_tracer 100000) ex_env 1 2 False None
           100000 (Some 30)) ex_callbacks = Inr l1 \<and>
      CaptureEnd ex_methods (withState ex_db l1) None 21000 None = Inr l2 \<and>
      nonceDelta (getAcc l2 1) = 0 \<and>
      CaptureTxEnd ex_methods l2 79000 = Inr l3 \<and> nonceDelta (getAcc l3 1) = 1) \<and>
   (\<exists>l1 l2 l3.
      run_callbacks ex_methods
        (CaptureStart ex_methods (CaptureTxStart ex_methods ex_create 100000) ex_env 1 2 True None
           100000 None) ex_create_callbacks = Inr l1 \<and>
      CaptureEnd ex_methods (withState ex_db l1) None 53000 None = Inr l2 \<and>
      nonceDelta (getAcc l2 1) = 1 \<and>
      CaptureTxEnd ex_methods l2 47000 = Inr l3 \<and> nonceDelta (getAcc l3 1) = 1)"
proof -
  let ?cf = "CallFrame CREATE 1 (Some 2) None None 53000 []"
  note ops = recordStorage_def recordCode_def recordBalanceChange_def recordNonceIncrese_def
    tryInitAccDiff_def getAcc_def getSlot_def zeroHashDiff_def emptyAccDiff_def etherTransfer_def
    andThen_def withState_def
  note ex = ex_tracer_def ex_frame_def ex_env_def ex_methods_def ex_scope_def ex_db_def
  have h1: "callstack (tracer_CaptureTxEnd ex_methods 0 (tracer ex_tracer)) = ex_frame # [] \<and>
            (Type ex_frame = CALL \<or> Type ex_frame = CREATE)"
    by (simp add: ex_methods_def ex_tracer_def ex_frame_def)
  have f: "Type ex_frame = CALL" "callFrame.From ex_frame = 1" by (simp_all add: ex_frame_def)
  have z: "nonceDelta (getAcc ex_tracer 1) = 0" "nonceDelta (getAcc ex_tracer 2) = 0"
    "accounts ex_tracer 1 = None" "accounts ex_create 1 = None"
    by (simp_all add: getAcc_def ex_tracer_def ex_create_def zeroAccDiff_def)
  have c0: "creationsBy 1 ex_callbacks = 0" "creationsBy 1 ex_create_callbacks = 0"
    by (simp_all add: creationsBy_def ex_callbacks_def ex_create_callbacks_def)
  from CaptureTxEnd_nonce_unless_creation
    [where M = ex_methods and restGas = 0 and l = ex_tracer and cf = ex_frame and rest = "[]",
      THEN conjunct1, THEN mp, OF h1]
  obtain l' where "CaptureTxEnd ex_methods ex_tracer 0 = Inr l'"
    "nonceDelta (getAcc l' (callFrame.From ex_frame)) =
       nonceDelta (getAcc ex_tracer (callFrame.From ex_frame)) +
         (if Type ex_frame = CREATE \<or> Type ex_frame = CREATE2 then 0 else 1)"
    "\<forall>a. a \<noteq> callFrame.From ex_frame \<longrightarrow> nonceDelta (getAcc l' a) = nonceDelta (getAcc ex_tracer a)"
    by blast
  with f z have a: "\<exists>l'. CaptureTxEnd ex_methods ex_tracer 0 = Inr l' \<and> nonceDelta (getAcc l' 1) = 1 \<and>
         nonceDelta (getAcc l' 2) = 0"
    by auto
  have "\<exists>l1 l2. run_callbacks ex_methods
        (CaptureStart ex_methods (CaptureTxStart ex_methods ex_tracer 100000) ex_env 1 2 False None
           100000 (Some 30)) ex_callbacks = Inr l1 \<and>
      CaptureEnd ex_methods (withState ex_db l1) None 21000 None = Inr l2 \<and>
      callstack (tracer_CaptureTxEnd ex_methods 79000 (tracer l2)) = ex_frame # [] \<and>
      callFrame.From ex_frame = 1 \<and> Type ex_frame = (if False then CREATE else CALL)"
    by (simp add: ex_callbacks_def CaptureTxStart_def CaptureStart_def CaptureState_def
        CaptureExit_def CaptureEnd_def Let_def ops ex)
  then obtain l1 l2 where
    r: "run_callbacks ex_methods
        (CaptureStart ex_methods (CaptureTxStart ex_methods ex_tracer 100000) ex_env 1 2 False None
           100000 (Some 30)) ex_callbacks = Inr l1"
      "CaptureEnd ex_methods (withState ex_db l1) None 21000 None = Inr l2"
    and h2: "run_callbacks ex_methods
        (CaptureStart ex_methods (CaptureTxStart ex_methods ex_tracer 100000) ex_env 1 2 False None
           100000 (Some 30)) ex_callbacks = Inr l1 \<and>
      CaptureEnd ex_methods (withState ex_db l1) None 21000 None = Inr l2 \<and>
      callstack (tracer_CaptureTxEnd ex_methods 79000 (tracer l2)) = ex_frame # [] \<and>
      callFrame.From ex_frame = 1 \<and> Type ex_frame = (if False then CREATE else CALL)"
    by blast
  from CaptureTxEnd_nonce_unless_creation
    [where M = ex_methods and restGas = 79000 and l0 = ex_tracer and gasLim = 100000
       and e = ex_env and sender = 1 and dst = 2 and create = False and inp = None
       and gas = 100000 and v = "Some 30" and cbs = ex_callbacks and ?l1.0 = l1 and db = ex_db
       and outp = None and gasUsed = 21000 and er = None and ?l2.0 = l2 and frame = ex_frame
       and others = "[]", THEN conjunct2, THEN mp, OF h2]
  obtain l3 where "nonceDelta (getAcc l2 1) =
        nonceDelta (getAcc ex_tracer 1) + (if False then 1 else 0) + of_nat (creationsBy 1 ex_callbacks)"
    "CaptureTxEnd ex_methods l2 79000 = Inr l3"
    "nonceDelta (getAcc l3 1) = nonceDelta (getAcc ex_tracer 1) + 1 + of_nat (creationsBy 1 ex_callbacks)"
    by blast
  with z c0 r have b: "\<exists>l1 l2 l3.
      run_callbacks ex_methods
        (CaptureStart ex_methods (CaptureTxStart ex_methods ex_tracer 100000) ex_env 1 2 False None
           100000 (Some 30)) ex_callbacks = Inr l1 \<and>
      CaptureEnd ex_methods (withState ex_db l1) None 21000 None = Inr l2 \<and>
      nonceDelta (getAcc l2 1) = 0 \<and>
      CaptureTxEnd ex_methods l2 79000 = Inr l3 \<and> nonceDelta (getAcc l3 1) = 1"
    by auto
  have "\<exists>l1 l2. run_callbacks ex_methods
        (CaptureStart ex_methods (CaptureTxStart ex_methods ex_create 100000) ex_env 1 2 True None
           100000 None) ex_create_callbacks = Inr l1 \<and>
      CaptureEnd ex_methods (withState ex_db l1) None 53000 None = Inr l2 \<and>
      callstack (tracer_CaptureTxEnd ex_methods 47000 (tracer l2)) = ?cf # [] \<and>
      callFrame.From ?cf = 1 \<and> Type ?cf = (if True then CREATE else CALL)"
    by (simp add: ex_create_callbacks_def ex_create_def CaptureTxStart_def CaptureStart_def
        CaptureState_def CaptureEnter_def CaptureEnd_def Let_def ops ex)
  then obtain k1 k2 where
    r': "run_callbacks ex_methods
        (CaptureStart ex_methods (CaptureTxStart ex_methods ex_create 100000) ex_env 1 2 True None
           100000 None) ex_create_callbacks = Inr k1"
      "CaptureEnd ex_methods (withState ex_db k1) None 53000 None = Inr k2"
    and h3: "run_callbacks ex_methods
        (CaptureStart ex_methods (CaptureTxStart ex_methods ex_create 100000) ex_env 1 2 True None
           100000 None) ex_create_callbacks = Inr k1 \<and>
      CaptureEnd ex_methods (withState ex_db k1) None 53000 None = Inr k2 \<and>
      callstack (tracer_CaptureTxEnd ex_methods 47000 (tracer k2)) = ?cf # [] \<and>
      callFrame.From ?cf = 1 \<and> Type ?cf = (if True then CREATE else CALL)"
    by blast
  from CaptureTxEnd_nonce_unless_creation
    [where M = ex_methods and restGas = 47000 and l0 = ex_create and gasLim = 100000
       and e = ex_env and sender = 1 and dst = 2 and create = True and inp = None
       and gas = 100000 and v = None and cbs = ex_create_callbacks and ?l1.0 = k1 and db = ex_db
       and outp = None and gasUsed = 53000 and er = None and ?l2.0 = k2 and frame = ?cf
       and others = "[]", THEN conjunct2, THEN mp, OF h3]
  obtain k3 where "CaptureTxEnd ex_methods k2 47000 = Inr k3"
    "accounts ex_create 1 = None \<and> creationsBy 1 ex_create_callbacks = 0 \<longrightarrow>
       nonceDelta (getAcc k3 1) = 1 \<and> nonceDelta (getAcc k2 1) = (if True then 1 else 0)"
    by blast
  with z c0 r' have c: "\<exists>l1 l2 l3.
      run_callbacks ex_methods
        (CaptureStart ex_methods (CaptureTxStart ex_methods ex_create 100000) ex_env 1 2 True None
           100000 None) ex_create_callbacks = Inr l1 \<and>
      CaptureEnd ex_methods (withState ex_db l1) None 53000 None = Inr l2 \<and>
      nonceDelta (getAcc l2 1) = 1 \<and>
      CaptureTxEnd ex_methods l2 47000 = Inr l3 \<and> nonceDelta (getAcc l3 1) = 1"
    by auto
  from h1 f have h1': "callstack (tracer_CaptureTxEnd ex_methods 0 (tracer ex_tracer)) = [ex_frame]"
    by simp
  from h1' f a b c show ?thesis by (intro conjI)
qed

text \<open>The current revision. \<^verbatim>\<open>CaptureTxEnd\<close> adds \<^verbatim>\<open>-int64(used)\<close> to the caller's balance
  delta, which is minus the gas used when that is below \<open>2^63\<close>, and changes no other
  balance delta.\<close>

lemma CaptureTxEnd_charges_gas:
  assumes "callstack (tracer_CaptureTxEnd M restGas (tracer l)) = cf # rest"
  shows "\<exists>l'. CaptureTxEnd M l restGas = Inr l' \<and>
           (\<forall>a. balanceDelta (getAcc l' a) =
                 balanceDelta (getAcc l a) +
                   (if a = callFrame.From cf then sint (- GasUsed cf) else 0)) \<and>
           (uint (GasUsed cf) < 2 ^ 63 \<longrightarrow> sint (- GasUsed cf) = - uint (GasUsed cf))"
proof -
  have "sint (- GasUsed cf) = - uint (GasUsed cf)" if b: "uint (GasUsed cf) < 2 ^ 63"
  proof -
    have w: "- GasUsed cf = word_of_int (- uint (GasUsed cf))" by simp
    have p: "0 \<le> uint (GasUsed cf)" by simp
    from b p have "- (2 ^ 63) \<le> - uint (GasUsed cf)" "- uint (GasUsed cf) < 2 ^ 63"
      by linarith+
    then have "signed_take_bit 63 (- uint (GasUsed cf)) = - uint (GasUsed cf)"
      by (rule signed_take_bit_int_eq_self)
    then have "sint (word_of_int (- uint (GasUsed cf)) :: uint64) = - uint (GasUsed cf)"
      by (simp only: sint_sbintrunc') simp
    with w show ?thesis by simp
  qed
  then show ?thesis
    by (simp add: CaptureTxEnd_frame [OF assms] Let_def getAcc_recordNonceIncrese
        getAcc_recordBalanceChange big_NewInt_def)
qed

text \<open>\<^verbatim>\<open>CaptureEnd\<close> and \<^verbatim>\<open>CaptureExit\<close> of the current revision use their \<^verbatim>\<open>gasUsed\<close>
  argument only to forward it to the call tracer: two calls after which the call tracer
  is in the same state return the same tracer, whatever the gas.\<close>

lemma CaptureEnd_ignores_gasUsed:
  "tracer_CaptureEnd M outp g er (tracer l) = tracer_CaptureEnd M outp g' er (tracer l) \<Longrightarrow>
   CaptureEnd M l outp g er = CaptureEnd M l outp g' er"
  by (simp add: CaptureEnd_def)

lemma CaptureExit_ignores_gasUsed:
  "tracer_CaptureExit M outp g er (tracer l) = tracer_CaptureExit M outp g' er (tracer l) \<Longrightarrow>
   CaptureExit M l outp g er = CaptureExit M l outp g' er"
  by (simp add: CaptureExit_def)

text \<open>The callbacks of a plain call with one nested call on the current revision: the
  balance deltas are the two transfers (4 from account 2 to 3, 30 from 1 to 2) and, once,
  the 21000 gas of the transaction.\<close>

lemma current_revision_charges_gas_once:
  "CaptureExit ex_methods ex_tracer None 700 None =
     Inr (ex_tracer\<lparr>accounts := [2 \<mapsto> emptyAccDiff\<lparr>balanceDelta := - 4\<rparr>,
                                 3 \<mapsto> emptyAccDiff\<lparr>balanceDelta := 4\<rparr>]\<rparr>) \<and>
   CaptureEnd ex_methods
     (ex_tracer\<lparr>accounts := [2 \<mapsto> emptyAccDiff\<lparr>balanceDelta := - 4\<rparr>,
                              3 \<mapsto> emptyAccDiff\<lparr>balanceDelta := 4\<rparr>]\<rparr>) None 5000 None =
     Inr (ex_tracer\<lparr>accounts := [2 \<mapsto> emptyAccDiff\<lparr>balanceDelta := 26\<rparr>,
                                 3 \<mapsto> emptyAccDiff\<lparr>balanceDelta := 4\<rparr>,
                                 1 \<mapsto> emptyAccDiff\<lparr>balanceDelta := - 30\<rparr>]\<rparr>) \<and>
   CaptureTxEnd ex_methods
     (ex_tracer\<lparr>accounts := [2 \<mapsto> emptyAccDiff\<lparr>balanceDelta := 26\<rparr>,
                              3 \<mapsto> emptyAccDiff\<lparr>balanceDelta := 4\<rparr>,
                              1 \<mapsto> emptyAccDiff\<lparr>balanceDelta := - 30\<rparr>]\<rparr>) 0 =
     Inr (ex_tracer\<lparr>accounts := [2 \<mapsto> emptyAccDiff\<lparr>balanceDelta := 26\<rparr>,
                                 3 \<mapsto> emptyAccDiff\<lparr>balanceDelta := 4\<rparr>,
                                 1 \<mapsto> emptyAccDiff\<lparr>balanceDelta := - 21030, nonceDelta := 1\<rparr>]\<rparr>)"
  by (simp add: CaptureExit_def CaptureEnd_def CaptureTxEnd_def etherTransfer_def andThen_def
      recordBalanceChange_def recordNonceIncrese_def tryInitAccDiff_def getAcc_def
      emptyAccDiff_def big_NewInt_def ex_tracer_def ex_methods_def ex_frame_def fun_upd_twist)

text \<open>C2. The claim holds of the current revision (the three lemmas above) and fails on
  the earlier revision of the file, where \<^verbatim>\<open>CaptureExit\<close> and \<^verbatim>\<open>CaptureEnd\<close> each add minus
  their \<^verbatim>\<open>gasUsed\<close> to the balance delta of the frame's \<^verbatim>\<open>From\<close> and \<^verbatim>\<open>CaptureTxEnd\<close> adds
  the gas of the whole transaction again. For the same callbacks (700 gas in the nested
  call, made by account 2; 5000 in the top-level call; 21000 for the transaction): account
  2 is charged 700, and the caller \<open>5000 + 21000\<close> instead of 21000.\<close>

theorem earlier_revision_charges_gas_in_every_callback:
  "CaptureExit_rev0 ex_methods ex_rev0 None 700 None =
     Inr (ex_rev0\<lparr>accounts := [2 \<mapsto> emptyAccDiff\<lparr>balanceDelta := - 700\<rparr>]\<rparr>) \<and>
   CaptureEnd_rev0 ex_methods
     (ex_rev0\<lparr>accounts := [2 \<mapsto> emptyAccDiff\<lparr>balanceDelta := - 700\<rparr>]\<rparr>) None 5000 None =
     Inr (ex_rev0\<lparr>accounts := [2 \<mapsto> emptyAccDiff\<lparr>balanceDelta := - 700\<rparr>,
                               1 \<mapsto> emptyAccDiff\<lparr>balanceDelta := - 5000\<rparr>]\<rparr>) \<and>
   CaptureTxEnd_rev0 ex_methods
     (ex_rev0\<lparr>accounts := [2 \<mapsto> emptyAccDiff\<lparr>balanceDelta := - 700\<rparr>,
                            1 \<mapsto> emptyAccDiff\<lparr>balanceDelta := - 5000\<rparr>]\<rparr>) 0 =
     Inr (ex_rev0\<lparr>accounts := [2 \<mapsto> emptyAccDiff\<lparr>balanceDelta := - 700\<rparr>,
                               1 \<mapsto> emptyAccDiff\<lparr>balanceDelta := - 26000\<rparr>]\<rparr>) \<and>
   GasUsed (hd (callstack (tracer ex_rev0))) = 21000 \<and>
   callFrame.From (hd (callstack (tracer ex_rev0))) = 1"
  by (simp add: CaptureExit_rev0_def CaptureEnd_rev0_def CaptureTxEnd_rev0_def
      recordBalanceChange_def tryInitAccDiff_def getAcc_def
      emptyAccDiff_def big_NewInt_def ex_rev0_def ex_methods_def ex_frame_def)

end
